theory Spec2Isabelle
  imports Complex_Main
begin

section \<open>Python values and errors\<close>

text \<open>
  The module \<^verbatim>\<open>Bio/Phylo/PAML/_parse_yn00.py\<close> works on byte strings (the code is
  written for Python 2: \<^verbatim>\<open>\s\<close> and \<^verbatim>\<open>str.strip()\<close> know the six ASCII whitespace
  characters, \<^verbatim>\<open>\d\<close> the ten ASCII digits). A line is a \<^typ>\<open>string\<close>.

  A Python float is represented by what \<^verbatim>\<open>float()\<close> read: a finite value by its sign
  and the exact decimal magnitude of the text (the rounding to a binary double is a
  function of that magnitude, so two model values that are equal denote equal doubles),
  the infinities by their sign, and the not-a-number value. \<^verbatim>\<open>None\<close> is a value of its
  own.

  The table \<^verbatim>\<open>results\<close> is a dictionary of dictionaries of dictionaries and is modelled
  as a value, by nested maps: each dictionary that the three functions store is a new
  one, the dictionary of statistics that is stored in both directions of a pair is not
  changed afterwards, and the table that a function is given is taken not to share a
  dictionary between two of its keys. A raised exception is the result \<open>Inl e\<close>; what
  the table held at that moment is not part of the result.
\<close>

datatype pyfloat = Finite bool rat | Infinite bool | NaN

datatype pyval = PyFloat pyfloat | PyNone

text \<open>
  The exceptions the three functions can raise. \<open>FloatValueError tok\<close> is the
  \<^verbatim>\<open>ValueError\<close> of \<^verbatim>\<open>float(tok)\<close>; \<open>StatsLineError line\<close> is
  \<^verbatim>\<open>ValueError("Problem with stats line: %r" % line)\<close>, which carries the line.
\<close>

datatype error =
    FloatValueError string
  | StatsLineError string
  | IndexError
  | KeyError string

type_synonym method_stats = "string \<rightharpoonup> pyval"
type_synonym pair_result = "string \<rightharpoonup> method_stats"
type_synonym result_table = "string \<rightharpoonup> (string \<rightharpoonup> pair_result)"

section \<open>Characters and string methods\<close>

definition newline :: char where
  "newline = CHR 0x0A"

definition is_space :: "char \<Rightarrow> bool" where
  "is_space c = (c = CHR '' '' \<or> c = CHR 0x09 \<or> c = CHR 0x0A \<or> c = CHR 0x0B
                 \<or> c = CHR 0x0C \<or> c = CHR 0x0D)"

definition is_digit :: "char \<Rightarrow> bool" where
  "is_digit c = (48 \<le> (of_char c :: nat) \<and> (of_char c :: nat) \<le> 57)"

definition lower :: "char \<Rightarrow> char" where
  "lower c = (if 65 \<le> (of_char c :: nat) \<and> (of_char c :: nat) \<le> 90
              then char_of ((of_char c :: nat) + 32) else c)"

text \<open>\<^verbatim>\<open>s.strip()\<close> and \<^verbatim>\<open>s.strip(chars)\<close>.\<close>

definition strip_with :: "(char \<Rightarrow> bool) \<Rightarrow> string \<Rightarrow> string" where
  "strip_with p s = rev (dropWhile p (rev (dropWhile p s)))"

definition strip :: "string \<Rightarrow> string" where
  "strip s = strip_with is_space s"

definition strip_chars :: "string \<Rightarrow> string \<Rightarrow> string" where
  "strip_chars cs s = strip_with (\<lambda>c. c \<in> set cs) s"

text \<open>\<^verbatim>\<open>s.split()\<close>: the maximal runs of non-whitespace characters.\<close>

fun split_ws :: "string \<Rightarrow> string \<Rightarrow> string list" where
  "split_ws cur [] = (if cur = [] then [] else [rev cur])"
| "split_ws cur (c # cs) =
     (if is_space c then (if cur = [] then split_ws [] cs else rev cur # split_ws [] cs)
      else split_ws (c # cur) cs)"

definition py_split :: "string \<Rightarrow> string list" where
  "py_split s = split_ws [] s"

text \<open>\<^verbatim>\<open>s.split(sep)\<close> for a separator of one character.\<close>

fun split_sep :: "char \<Rightarrow> string \<Rightarrow> string \<Rightarrow> string list" where
  "split_sep sep cur [] = [rev cur]"
| "split_sep sep cur (c # cs) =
     (if c = sep then rev cur # split_sep sep [] cs else split_sep sep (c # cur) cs)"

definition py_split_on :: "char \<Rightarrow> string \<Rightarrow> string list" where
  "py_split_on sep s = split_sep sep [] s"

text \<open>\<^verbatim>\<open>pat in s\<close> for strings.\<close>

fun starts_with :: "string \<Rightarrow> string \<Rightarrow> bool" where
  "starts_with [] s = True"
| "starts_with (p # ps) [] = False"
| "starts_with (p # ps) (c # cs) = (p = c \<and> starts_with ps cs)"

fun contains :: "string \<Rightarrow> string \<Rightarrow> bool" where
  "contains pat [] = (pat = [])"
| "contains pat (c # cs) = (starts_with pat (c # cs) \<or> contains pat cs)"

text \<open>\<^verbatim>\<open>xs[i]\<close>: a negative index counts from the end, an index out of range raises.\<close>

definition py_index :: "'a list \<Rightarrow> int \<Rightarrow> error + 'a" where
  "py_index xs i =
     (if 0 \<le> i \<and> i < int (length xs) then Inr (xs ! nat i)
      else if i < 0 \<and> - int (length xs) \<le> i then Inr (xs ! nat (int (length xs) + i))
      else Inl IndexError)"

section \<open>The built-ins \<^verbatim>\<open>int\<close> and \<^verbatim>\<open>float\<close> on strings\<close>

definition digits_val :: "string \<Rightarrow> nat" where
  "digits_val ds = foldl (\<lambda>a c. 10 * a + ((of_char c :: nat) - 48)) 0 ds"

definition span_digits :: "string \<Rightarrow> string \<times> string" where
  "span_digits s = (takeWhile is_digit s, dropWhile is_digit s)"

text \<open>The value of the decimal with digits \<open>ds\<close> scaled by ten to the power \<open>k\<close>.\<close>

definition dec_value :: "string \<Rightarrow> int \<Rightarrow> rat" where
  "dec_value ds k =
     (if 0 \<le> k then of_nat (digits_val ds * 10 ^ nat k)
      else of_nat (digits_val ds) / of_nat (10 ^ nat (- k)))"

text \<open>
  The exponent part of a float literal: nothing, or \<^verbatim>\<open>e\<close>/\<^verbatim>\<open>E\<close>, an optional sign and
  at least one digit, up to the end of the text.
\<close>

definition float_exponent :: "string \<Rightarrow> int option" where
  "float_exponent s =
     (case s of
        [] \<Rightarrow> Some 0
      | c # r \<Rightarrow>
          if c = CHR ''e'' \<or> c = CHR ''E'' then
            (let (neg, ds) = (case r of
                                [] \<Rightarrow> (False, r)
                              | d # r' \<Rightarrow> if d = CHR ''-'' then (True, r')
                                          else if d = CHR ''+'' then (False, r')
                                          else (False, r))
             in if ds \<noteq> [] \<and> list_all is_digit ds
                then Some (if neg then - int (digits_val ds) else int (digits_val ds))
                else None)
          else None)"

text \<open>
  \<^verbatim>\<open>float(s)\<close>, as CPython reads a string from version 2.6 on: surrounding whitespace
  is dropped; then an optional sign, and either \<^verbatim>\<open>nan\<close>, \<^verbatim>\<open>inf\<close> or \<^verbatim>\<open>infinity\<close> in
  any letter case, or a decimal number (digits with an optional point, at least one
  digit) with an optional exponent. Underscores between digits (Python 3.6) are not
  read. \<open>None\<close> is the \<^verbatim>\<open>ValueError\<close>.
\<close>

definition py_float :: "string \<Rightarrow> pyfloat option" where
  "py_float s =
     (let t = strip s;
          (neg, u) = (case t of
                        [] \<Rightarrow> (False, t)
                      | c # r \<Rightarrow> if c = CHR ''-'' then (True, r)
                                 else if c = CHR ''+'' then (False, r)
                                 else (False, t));
          l = map lower u
      in if l = ''nan'' then Some NaN
         else if l = ''inf'' \<or> l = ''infinity'' then Some (Infinite neg)
         else
           (let (ip, r1) = span_digits u;
                (fp, r2) = (case r1 of
                              [] \<Rightarrow> ([], r1)
                            | c # r \<Rightarrow> if c = CHR ''.'' then span_digits r else ([], r1))
            in if ip = [] \<and> fp = [] then None
               else (case float_exponent r2 of
                       None \<Rightarrow> None
                     | Some e \<Rightarrow> Some (Finite neg (dec_value (ip @ fp) (e - int (length fp)))))))"

text \<open>\<^verbatim>\<open>[float(val) for val in toks]\<close>: the first token that is no float raises.\<close>

fun float_all :: "string list \<Rightarrow> error + pyfloat list" where
  "float_all [] = Inr []"
| "float_all (t # ts) =
     (case py_float t of
        None \<Rightarrow> Inl (FloatValueError t)
      | Some f \<Rightarrow> (case float_all ts of Inl e \<Rightarrow> Inl e | Inr fs \<Rightarrow> Inr (f # fs)))"

section \<open>The regular expressions\<close>

text \<open>
  \<^verbatim>\<open>-*\d+\.\d+\<close> at the start of \<open>s\<close>: all the minus signs, all the digits (at least
  one), a point, all the digits (at least one). Each greedy part is followed by a
  character class disjoint from its own, so giving back characters never helps and the
  first attempt decides. The result is the matched text and the rest.
\<close>

definition match_float :: "string \<Rightarrow> (string \<times> string) option" where
  "match_float s =
     (let ms = takeWhile (\<lambda>c. c = CHR ''-'') s;
          r1 = dropWhile (\<lambda>c. c = CHR ''-'') s;
          (d1, r2) = span_digits r1
      in if d1 = [] then None
         else (case r2 of
                 [] \<Rightarrow> None
               | c # r3 \<Rightarrow>
                   if c = CHR ''.'' then
                     (let (d2, r4) = span_digits r3
                      in if d2 = [] then None else Some (ms @ d1 @ [c] @ d2, r4))
                   else None))"

lemma match_float_shorter:
  "match_float s = Some (tok, rest) \<Longrightarrow> length rest < length s"
proof -
  assume m: "match_float s = Some (tok, rest)"
  let ?r1 = "dropWhile (\<lambda>c. c = CHR ''-'') s"
  let ?r2 = "dropWhile is_digit ?r1"
  from m obtain c r3 where r2: "?r2 = c # r3" and rest: "rest = dropWhile is_digit r3"
    by (auto simp: match_float_def span_digits_def Let_def
             split: if_splits list.splits)
  have "length rest \<le> length r3" using rest by (simp add: length_dropWhile_le)
  also have "length r3 < length ?r2" using r2 by simp
  also have "length ?r2 \<le> length ?r1" by (rule length_dropWhile_le)
  also have "length ?r1 \<le> length s" by (rule length_dropWhile_le)
  finally show ?thesis .
qed

text \<open>
  \<^verbatim>\<open>re.findall("-*\d+\.\d+", line)\<close>: scan from the left; after a match go on behind
  it, otherwise one character further.
\<close>

function findall_float :: "string \<Rightarrow> string list" where
  "findall_float [] = []"
| "findall_float (c # cs) =
     (case match_float (c # cs) of
        None \<Rightarrow> findall_float cs
      | Some (tok, rest) \<Rightarrow> tok # findall_float rest)"
  by pat_completeness auto
termination
  by (relation "measure length") (auto dest: match_float_shorter)

declare findall_float.simps [simp del]

text \<open>
  \<^verbatim>\<open>re.match("(.+)\s{5,15}", line)\<close>, group 1. The greedy \<^verbatim>\<open>.+\<close> first takes every
  character up to the first newline and gives them back one at a time, down to one
  character; the match succeeds at the first length after which five whitespace
  characters follow.
\<close>

definition matrix_row_res :: "string \<Rightarrow> string option" where
  "matrix_row_res line =
     (let m = length (takeWhile (\<lambda>c. c \<noteq> newline) line)
      in map_option (\<lambda>n. take n line)
           (find (\<lambda>n. 5 \<le> length (takeWhile is_space (take 5 (drop n line))))
                 (rev [1 ..< Suc m])))"

text \<open>
  \<^verbatim>\<open>re.match("\s+(\d+)\s+(\d+)", line)\<close>, groups 1 and 2: whitespace, digits,
  whitespace, digits, each run maximal and not empty.
\<close>

definition row_res :: "string \<Rightarrow> (string \<times> string) option" where
  "row_res line =
     (let w1 = takeWhile is_space line; r1 = dropWhile is_space line;
          (d1, r2) = span_digits r1;
          w2 = takeWhile is_space r2; r3 = dropWhile is_space r2;
          (d2, r4) = span_digits r3
      in if w1 \<noteq> [] \<and> d1 \<noteq> [] \<and> w2 \<noteq> [] \<and> d2 \<noteq> [] then Some (d1, d2) else None)"

text \<open>
  \<^verbatim>\<open>re.match("\d+ \((.+)\) vs. \d+ \((.+)\)", line)\<close>, groups 1 and 2. \<open>strip_prefix\<close>
  matches literal text. \<open>last_group\<close> is \<^verbatim>\<open>(.+)\)\<close>: the longest text without a
  newline, of at least one character, that a closing parenthesis follows.
  \<open>comp_tail\<close> is what follows group 1: \<^verbatim>\<open>\) vs. \d+ \((.+)\)\<close>, where the point is
  any character but a newline. The first group is again tried from its longest
  candidate down.
\<close>

fun strip_prefix :: "string \<Rightarrow> string \<Rightarrow> string option" where
  "strip_prefix [] s = Some s"
| "strip_prefix (p # ps) [] = None"
| "strip_prefix (p # ps) (c # cs) = (if p = c then strip_prefix ps cs else None)"

definition last_group :: "string \<Rightarrow> string option" where
  "last_group s =
     (let m = length (takeWhile (\<lambda>c. c \<noteq> newline) s)
      in map_option (\<lambda>n. take n s)
           (find (\<lambda>n. starts_with '')'' (drop n s)) (rev [1 ..< Suc m])))"

definition comp_tail :: "string \<Rightarrow> string option" where
  "comp_tail s =
     (case strip_prefix '') vs'' s of
        None \<Rightarrow> None
      | Some r1 \<Rightarrow>
          (case r1 of
             [] \<Rightarrow> None
           | c # r2 \<Rightarrow>
               if c = newline then None
               else (case strip_prefix '' '' r2 of
                       None \<Rightarrow> None
                     | Some r3 \<Rightarrow>
                         (let (d, r4) = span_digits r3
                          in if d = [] then None
                             else (case strip_prefix '' ('' r4 of
                                     None \<Rightarrow> None
                                   | Some r5 \<Rightarrow> last_group r5)))))"

definition comp_res :: "string \<Rightarrow> (string \<times> string) option" where
  "comp_res line =
     (let (d, r1) = span_digits line
      in if d = [] then None
         else (case strip_prefix '' ('' r1 of
                 None \<Rightarrow> None
               | Some r2 \<Rightarrow>
                   (let m = length (takeWhile (\<lambda>c. c \<noteq> newline) r2)
                    in (case find (\<lambda>n. comp_tail (drop n r2) \<noteq> None) (rev [1 ..< Suc m]) of
                          None \<Rightarrow> None
                        | Some n \<Rightarrow>
                            (case comp_tail (drop n r2) of
                               None \<Rightarrow> None
                             | Some g2 \<Rightarrow> Some (take n r2, g2))))))"

section \<open>The matrix section: \<^verbatim>\<open>parse_ng86\<close>\<close>

text \<open>
  The inner loop \<^verbatim>\<open>for i in range(0, len(line_floats), 3)\<close>, on the floats from
  position \<open>i\<close> on, with \<open>j = i // 3\<close>. Reading \<^verbatim>\<open>line_floats[i+1]\<close> or
  \<^verbatim>\<open>line_floats[i+2]\<close> behind the end raises. The two assignments evaluate
  \<^verbatim>\<open>results[seq_name]\<close>, then \<^verbatim>\<open>sequences[i//3]\<close>, store, then
  \<^verbatim>\<open>results[sequences[i//3]]\<close>, and store.
\<close>

fun ng86_groups ::
  "pyfloat list \<Rightarrow> nat \<Rightarrow> string \<Rightarrow> string list \<Rightarrow> result_table \<Rightarrow> error + result_table"
where
  "ng86_groups [] j seq_name sequences results = Inr results"
| "ng86_groups [x] j seq_name sequences results = Inl IndexError"
| "ng86_groups [x, y] j seq_name sequences results = Inl IndexError"
| "ng86_groups (x # y # z # fs) j seq_name sequences results =
     (let NG86 = [''omega'' \<mapsto> PyFloat x, ''dN'' \<mapsto> PyFloat y, ''dS'' \<mapsto> PyFloat z]
      in case results seq_name of
           None \<Rightarrow> Inl (KeyError seq_name)
         | Some row \<Rightarrow>
             (case py_index sequences (int j) of
                Inl e \<Rightarrow> Inl e
              | Inr other \<Rightarrow>
                  (let results1 = results(seq_name \<mapsto> row(other \<mapsto> [''NG86'' \<mapsto> NG86]))
                   in case results1 other of
                        None \<Rightarrow> Inl (KeyError other)
                      | Some orow \<Rightarrow>
                          ng86_groups fs (Suc j) seq_name sequences
                            (results1(other \<mapsto> orow(seq_name \<mapsto> [''NG86'' \<mapsto> NG86]))))))"

text \<open>The loop over the lines, with the list \<^verbatim>\<open>sequences\<close> built so far.\<close>

fun ng86_loop ::
  "string list \<Rightarrow> result_table \<Rightarrow> string list \<Rightarrow> error + (result_table \<times> string list)"
where
  "ng86_loop [] results sequences = Inr (results, sequences)"
| "ng86_loop (line # lines) results sequences =
     (case float_all (findall_float line) of
        Inl e \<Rightarrow> Inl e
      | Inr line_floats \<Rightarrow>
          (case matrix_row_res line of
             None \<Rightarrow> ng86_loop lines results sequences
           | Some g \<Rightarrow>
               (let seq_name = strip g;
                    sequences1 = sequences @ [seq_name];
                    results1 = results(seq_name \<mapsto> Map.empty)
                in case ng86_groups line_floats 0 seq_name sequences1 results1 of
                     Inl e \<Rightarrow> Inl e
                   | Inr results2 \<Rightarrow> ng86_loop lines results2 sequences1)))"

definition parse_ng86 ::
  "string list \<Rightarrow> result_table \<Rightarrow> error + (result_table \<times> string list)"
where
  "parse_ng86 lines results = ng86_loop lines results []"

section \<open>The indexed table: \<^verbatim>\<open>parse_yn00\<close>\<close>

text \<open>
  \<^verbatim>\<open>results[a][b][method] = stats\<close>: both lookups raise \<^verbatim>\<open>KeyError\<close> on a missing
  key, the store into the pair's dictionary adds or replaces the method.
\<close>

definition set_method ::
  "result_table \<Rightarrow> string \<Rightarrow> string \<Rightarrow> string \<Rightarrow> method_stats \<Rightarrow> error + result_table"
where
  "set_method results a b method stats =
     (case results a of
        None \<Rightarrow> Inl (KeyError a)
      | Some row \<Rightarrow>
          (case row b of
             None \<Rightarrow> Inl (KeyError b)
           | Some pair \<Rightarrow> Inr (results(a \<mapsto> row(b \<mapsto> pair(method \<mapsto> stats))))))"

text \<open>
  The nine assignments \<^verbatim>\<open>YN00[name] = line_floats[k]\<close>, \<open>k\<close> from 0 to 8, in the
  order of the source.
\<close>

definition yn00_names :: "string list" where
  "yn00_names = [''S'', ''N'', ''t'', ''kappa'', ''omega'', ''dN'', ''dN SE'', ''dS'', ''dS SE'']"

fun yn00_fields ::
  "string list \<Rightarrow> nat \<Rightarrow> pyfloat list \<Rightarrow> method_stats \<Rightarrow> error + method_stats"
where
  "yn00_fields [] k line_floats YN00 = Inr YN00"
| "yn00_fields (name # names) k line_floats YN00 =
     (case py_index line_floats (int k) of
        Inl e \<Rightarrow> Inl e
      | Inr v \<Rightarrow> yn00_fields names (Suc k) line_floats (YN00(name \<mapsto> PyFloat v)))"

definition yn00_line :: "string list \<Rightarrow> result_table \<Rightarrow> string \<Rightarrow> error + result_table" where
  "yn00_line sequences results line =
     (case float_all (findall_float line) of
        Inl e \<Rightarrow> Inl e
      | Inr line_floats \<Rightarrow>
          (case row_res line of
             None \<Rightarrow> Inr results
           | Some (g1, g2) \<Rightarrow>
               (let seq1 = int (digits_val g1); seq2 = int (digits_val g2)
                in case py_index sequences (seq1 - 1) of
                     Inl e \<Rightarrow> Inl e
                   | Inr seq_name1 \<Rightarrow>
                       (case py_index sequences (seq2 - 1) of
                          Inl e \<Rightarrow> Inl e
                        | Inr seq_name2 \<Rightarrow>
                            (case yn00_fields yn00_names 0 line_floats Map.empty of
                               Inl e \<Rightarrow> Inl e
                             | Inr YN00 \<Rightarrow>
                                 (case set_method results seq_name1 seq_name2 ''YN00'' YN00 of
                                    Inl e \<Rightarrow> Inl e
                                  | Inr results1 \<Rightarrow>
                                      set_method results1 seq_name2 seq_name1 ''YN00'' YN00))))))"

text \<open>
  The caller's two objects, \<^verbatim>\<open>results\<close> and \<^verbatim>\<open>sequences\<close>, as the state of the loop;
  \<^verbatim>\<open>parse_yn00\<close> returns \<^verbatim>\<open>results\<close>.
\<close>

record yn00_state =
  st_results :: result_table
  st_sequences :: "string list"

fun yn00_loop :: "string list \<Rightarrow> yn00_state \<Rightarrow> error + yn00_state" where
  "yn00_loop [] st = Inr st"
| "yn00_loop (line # lines) st =
     (case yn00_line (st_sequences st) (st_results st) line of
        Inl e \<Rightarrow> Inl e
      | Inr results1 \<Rightarrow> yn00_loop lines (st\<lparr>st_results := results1\<rparr>))"

definition parse_yn00 :: "string list \<Rightarrow> result_table \<Rightarrow> string list \<Rightarrow> error + result_table" where
  "parse_yn00 lines results sequences =
     map_sum id st_results (yn00_loop lines \<lparr>st_results = results, st_sequences = sequences\<rparr>)"

section \<open>The grouped methods: \<^verbatim>\<open>parse_others\<close>\<close>

text \<open>
  The loop \<^verbatim>\<open>for i in range(0, len(stats_split), 3)\<close> on the tokens from position
  \<open>i\<close> on. \<^verbatim>\<open>stats_split[i+2]\<close> behind the end is the \<^verbatim>\<open>IndexError\<close> that the source
  turns into the \<^verbatim>\<open>ValueError\<close> with the line; a value that \<^verbatim>\<open>float\<close> rejects is
  stored as \<^verbatim>\<open>None\<close>. The token between key and value is not looked at.
\<close>

fun build_stats :: "string \<Rightarrow> string list \<Rightarrow> method_stats \<Rightarrow> error + method_stats" where
  "build_stats line [] stats = Inr stats"
| "build_stats line [k] stats = Inl (StatsLineError line)"
| "build_stats line [k, e] stats = Inl (StatsLineError line)"
| "build_stats line (k # e # v # toks) stats =
     (let stat0 = strip_chars ''()'' k;
          stat = (if stat0 = ''w'' then ''omega'' else stat0);
          value = strip_chars ''()'' v
      in build_stats line toks
           (stats(stat \<mapsto> (case py_float value of Some f \<Rightarrow> PyFloat f | None \<Rightarrow> PyNone))))"

text \<open>
  The two stores of one method, \<^verbatim>\<open>results[seq_name1][seq_name2][m] = stats\<close> and
  \<^verbatim>\<open>results[seq_name2][seq_name1][m] = stats\<close>.
\<close>

definition store_both ::
  "result_table \<Rightarrow> string \<Rightarrow> string \<Rightarrow> string \<Rightarrow> method_stats \<Rightarrow> error + result_table"
where
  "store_both results seq_name1 seq_name2 method stats =
     (case set_method results seq_name1 seq_name2 method stats of
        Inl e \<Rightarrow> Inl e
      | Inr results1 \<Rightarrow> set_method results1 seq_name2 seq_name1 method stats)"

text \<open>The body of the \<^verbatim>\<open>if "dS =" in line\<close> branch.\<close>

definition stats_line ::
  "result_table \<Rightarrow> string \<Rightarrow> string \<Rightarrow> string \<Rightarrow> error + result_table"
where
  "stats_line results seq_name1 seq_name2 line =
     (case py_index (py_split_on (CHR '':'') line) 1 of
        Inl e \<Rightarrow> Inl e
      | Inr part \<Rightarrow>
          (let line_stats = strip part; stats_split = py_split line_stats
           in case build_stats line stats_split Map.empty of
                Inl e \<Rightarrow> Inl e
              | Inr stats \<Rightarrow>
                  if contains ''LWL85:'' line
                  then store_both results seq_name1 seq_name2 ''LWL85'' stats
                  else if contains ''LWL85m'' line
                  then store_both results seq_name1 seq_name2 ''LWL85m'' stats
                  else if contains ''LPB93'' line
                  then store_both results seq_name1 seq_name2 ''LPB93'' stats
                  else Inr results))"

record others_state =
  seq_name1 :: "string option"
  seq_name2 :: "string option"
  o_results :: result_table

definition others_line :: "others_state \<Rightarrow> string \<Rightarrow> error + others_state" where
  "others_line st line =
     (case comp_res line of
        Some (g1, g2) \<Rightarrow> Inr (st\<lparr>seq_name1 := Some g1, seq_name2 := Some g2\<rparr>)
      | None \<Rightarrow>
          (case (seq_name1 st, seq_name2 st) of
             (Some n1, Some n2) \<Rightarrow>
               if contains ''dS ='' line
               then (case stats_line (o_results st) n1 n2 line of
                       Inl e \<Rightarrow> Inl e
                     | Inr results1 \<Rightarrow> Inr (st\<lparr>o_results := results1\<rparr>))
               else Inr st
           | _ \<Rightarrow> Inr st))"

fun others_loop :: "string list \<Rightarrow> others_state \<Rightarrow> error + others_state" where
  "others_loop [] st = Inr st"
| "others_loop (line # lines) st =
     (case others_line st line of
        Inl e \<Rightarrow> Inl e
      | Inr st1 \<Rightarrow> others_loop lines st1)"

text \<open>The parameter \<^verbatim>\<open>sequences\<close> is not used by the source.\<close>

definition parse_others ::
  "string list \<Rightarrow> result_table \<Rightarrow> string list \<Rightarrow> error + result_table"
where
  "parse_others lines results sequences =
     map_sum id o_results
       (others_loop lines \<lparr>seq_name1 = None, seq_name2 = None, o_results = results\<rparr>)"

section \<open>Reading the result table\<close>

text \<open>
  \<^verbatim>\<open>results[a][b]\<close> and \<^verbatim>\<open>results[a][b][m]\<close> as options: \<open>None\<close> where a key on the
  way is missing.
\<close>

definition lookup_pair :: "result_table \<Rightarrow> string \<Rightarrow> string \<Rightarrow> pair_result option" where
  "lookup_pair results a b = (case results a of None \<Rightarrow> None | Some row \<Rightarrow> row b)"

definition lookup_method ::
  "result_table \<Rightarrow> string \<Rightarrow> string \<Rightarrow> string \<Rightarrow> method_stats option"
where
  "lookup_method results a b m =
     (case lookup_pair results a b of None \<Rightarrow> None | Some pair \<Rightarrow> pair m)"

section \<open>Notions of the statements\<close>

text \<open>
  Notions for the statements about the matrix section. A line is row-labeled, in the
  words of the specification, when a text of at least one character without a newline
  precedes a run of 5 to 15 whitespace characters. The floats of a row are read in
  groups of three; \<open>ng86_stats\<close> is the dictionary with the keys \<^verbatim>\<open>omega\<close>,
  \<^verbatim>\<open>dN\<close>, \<^verbatim>\<open>dS\<close> built from a group and \<open>ng86_pair\<close> the pair entry
  \<^verbatim>\<open>{"NG86": NG86}\<close>.
\<close>

definition row_labeled :: "string \<Rightarrow> bool" where
  "row_labeled line =
     (\<exists>p s t. line = p @ s @ t \<and> p \<noteq> [] \<and> newline \<notin> set p
        \<and> 5 \<le> length s \<and> length s \<le> 15 \<and> (\<forall>c\<in>set s. is_space c))"

fun groups_of_three :: "'a list \<Rightarrow> ('a \<times> 'a \<times> 'a) list" where
  "groups_of_three (x # y # z # xs) = (x, y, z) # groups_of_three xs"
| "groups_of_three xs = []"

definition ng86_stats :: "pyfloat \<times> pyfloat \<times> pyfloat \<Rightarrow> method_stats" where
  "ng86_stats g =
     (case g of (x, y, z) \<Rightarrow> [''omega'' \<mapsto> PyFloat x, ''dN'' \<mapsto> PyFloat y, ''dS'' \<mapsto> PyFloat z])"

definition ng86_pair :: "pyfloat \<times> pyfloat \<times> pyfloat \<Rightarrow> pair_result" where
  "ng86_pair g = [''NG86'' \<mapsto> ng86_stats g]"

text \<open>
  The invariant of the loop of \<^verbatim>\<open>parse_ng86\<close> for the names \<open>S\<close> found so far: each
  has a top-level entry, whose keys are names of \<open>S\<close> and whose pair entries were
  written by this pass. \<open>key_shape\<close> is the set of top-level keys with, for each, the
  set of its pair keys.
\<close>

definition ng86_inv :: "result_table \<Rightarrow> string list \<Rightarrow> bool" where
  "ng86_inv results S =
     (\<forall>a\<in>set S. results a \<noteq> None
        \<and> (\<forall>b. lookup_pair results a b \<noteq> None \<longrightarrow> b \<in> set S)
        \<and> (\<forall>b p. lookup_pair results a b = Some p \<longrightarrow> (\<exists>g. p = ng86_pair g)))"

definition key_shape :: "result_table \<Rightarrow> string \<Rightarrow> string set option" where
  "key_shape results a = map_option dom (results a)"

text \<open>
  Notions for the statements about statistics lines. A not-a-number marker is the text
  \<^verbatim>\<open>nan\<close> with an optional sign, in any letter case. The value tokens of a token
  stream are the third tokens of its groups of three. \<open>stored_under\<close> says that the
  statistics are in the table under one method label, in both directions of the pair,
  and that every other method label of every pair is as before.
\<close>

definition nan_marker :: "string \<Rightarrow> bool" where
  "nan_marker v = (map lower v = ''nan'' \<or> map lower v = ''-nan'' \<or> map lower v = ''+nan'')"

fun value_tokens :: "string list \<Rightarrow> string list" where
  "value_tokens (k # e # v # toks) = v # value_tokens toks"
| "value_tokens toks = []"

definition stored_under ::
  "result_table \<Rightarrow> result_table \<Rightarrow> string \<Rightarrow> string \<Rightarrow> string \<Rightarrow> method_stats \<Rightarrow> bool"
where
  "stored_under results results' n1 n2 m stats =
     (lookup_method results' n1 n2 m = Some stats \<and> lookup_method results' n2 n1 m = Some stats
      \<and> (\<forall>a b m'. m' \<noteq> m \<longrightarrow> lookup_method results' a b m' = lookup_method results a b m'))"

section \<open>Example inputs\<close>

text \<open>
  The lines that the comments of \<^verbatim>\<open>parse_yn00\<close> and \<^verbatim>\<open>parse_others\<close> give as examples
  of the report: the table row with its first eight numbers and with all nine, the
  header of a comparison, and two method lines. \<open>pair_table a b\<close> is a table that
  holds the two pair entries of \<open>a\<close> and \<open>b\<close>, both without a method.
\<close>

definition example_row8 :: string where
  "example_row8 =
     ''   2    1    67.3   154.7   0.0136  3.6564  0.0000 -0.0000 +- 0.0000  0.0150''"

definition example_row9 :: string where
  "example_row9 =
     ''   2    1    67.3   154.7   0.0136  3.6564  0.0000 -0.0000 +- 0.0000  0.0150 +- 0.0151''"

definition example_header :: string where
  "example_header = ''2 (Pan_troglo) vs. 1 (Homo_sapie)''"

definition example_lwl85 :: string where
  "example_lwl85 = ''LWL85:  dS =  0.0227 dN =  0.0000 w = 0.0000 S =   45.0 N =  177.0''"

definition example_lwl85m :: string where
  "example_lwl85m =
     ''LWL85m: dS =    -nan dN =    -nan w =   -nan S =   -nan N =   -nan (rho = -nan)''"

definition pair_table :: "string \<Rightarrow> string \<Rightarrow> result_table" where
  "pair_table a b = [a \<mapsto> [b \<mapsto> Map.empty], b \<mapsto> [a \<mapsto> Map.empty]]"

text \<open>
  Three more statistics lines: one cut off behind a key, one that names both
  \<^verbatim>\<open>LWL85:\<close> and \<^verbatim>\<open>LWL85m\<close>, and one with a blank before the colon.
\<close>

definition truncated_line :: string where
  "truncated_line = ''LWL85:  dS =  0.0227 dN =''"

definition mixed_label_line :: string where
  "mixed_label_line = ''LWL85: dS = 0.1 (LWL85m = 0.2)''"

definition spaced_label_line :: string where
  "spaced_label_line = ''LWL85 : dS = 0.1 dN = 0.2 w = 0.3''"

text \<open>
  Rows of a matrix section: the two rows of a report on the two sequences with an empty
  line between them, a row with the label A and no number, a row with the label B and
  one group, and a table that holds a pair entry of A and B already.
\<close>

definition example_matrix_row1 :: string where
  "example_matrix_row1 = ''Homo_sapie               ''"

definition example_matrix_row2 :: string where
  "example_matrix_row2 = ''Pan_troglo           0.0000 (0.0000 0.0207)''"

definition example_matrix :: "string list" where
  "example_matrix = [example_matrix_row1, [], example_matrix_row2]"

definition label_A_line :: string where
  "label_A_line = ''A      ''"

definition label_B_line :: string where
  "label_B_line = ''B      0.1 (0.2 0.3)''"

definition seeded_table :: result_table where
  "seeded_table =
     [''A'' \<mapsto> [''B'' \<mapsto> ng86_pair (Finite False 0, Finite False 0, Finite False (207 / 10000))],
      ''B'' \<mapsto> [''A'' \<mapsto> ng86_pair (Finite False 0, Finite False 0, Finite False (207 / 10000))]]"

section \<open>Evaluation of the string functions\<close>

lemmas str_eval =
  findall_float.simps match_float_def span_digits_def is_digit_def is_space_def
  py_float_def strip_def strip_with_def strip_chars_def lower_def float_exponent_def
  dec_value_def digits_val_def row_res_def py_split_def py_split_on_def newline_def
  matrix_row_res_def comp_res_def comp_tail_def last_group_def Let_def

lemma row8_floats:
  "float_all (findall_float example_row8)
   = Inr [Finite False (673 / 10), Finite False (1547 / 10), Finite False (136 / 10000),
          Finite False (36564 / 10000), Finite False 0, Finite True 0, Finite False 0,
          Finite False (15 / 1000)]"
  by (simp add: example_row8_def str_eval)

lemma row9_floats:
  "float_all (findall_float example_row9)
   = Inr [Finite False (673 / 10), Finite False (1547 / 10), Finite False (136 / 10000),
          Finite False (36564 / 10000), Finite False 0, Finite True 0, Finite False 0,
          Finite False (15 / 1000), Finite False (151 / 10000)]"
  by (simp add: example_row9_def str_eval)

lemma row8_res: "row_res example_row8 = Some (''2'', ''1'')"
  by (simp add: example_row8_def str_eval)

lemma row9_res: "row_res example_row9 = Some (''2'', ''1'')"
  by (simp add: example_row9_def str_eval)

lemma digits_val_2_1: "digits_val ''2'' = 2" "digits_val ''1'' = 1"
  by (simp_all add: digits_val_def)

section \<open>Stores into the table\<close>

lemma store_both_lookup:
  assumes "results a = Some rowa" and "rowa b = Some pab"
      and "results b = Some rowb" and "rowb a = Some pba"
  shows "\<exists>r. store_both results a b m stats = Inr r
           \<and> lookup_method r a b m = Some stats \<and> lookup_method r b a m = Some stats"
  using assms
  by (cases "a = b")
     (auto simp: store_both_def set_method_def lookup_method_def lookup_pair_def)

section \<open>The indexed table: the example row\<close>

lemma yn00_fields_8:
  "yn00_fields yn00_names 0 [f0, f1, f2, f3, f4, f5, f6, f7] Map.empty = Inl IndexError"
  by (simp add: yn00_names_def py_index_def)

lemma yn00_fields_9:
  "yn00_fields yn00_names 0 [f0, f1, f2, f3, f4, f5, f6, f7, f8] Map.empty
   = Inr [''S'' \<mapsto> PyFloat f0, ''N'' \<mapsto> PyFloat f1, ''t'' \<mapsto> PyFloat f2,
          ''kappa'' \<mapsto> PyFloat f3, ''omega'' \<mapsto> PyFloat f4, ''dN'' \<mapsto> PyFloat f5,
          ''dN SE'' \<mapsto> PyFloat f6, ''dS'' \<mapsto> PyFloat f7, ''dS SE'' \<mapsto> PyFloat f8]"
  by (simp add: yn00_names_def py_index_def)

lemma yn00_line_2_1:
  assumes "float_all (findall_float line) = Inr lf" and "row_res line = Some (g1, g2)"
      and "digits_val g1 = 2" and "digits_val g2 = 1"
  shows "yn00_line [a, b] results line =
           (case yn00_fields yn00_names 0 lf Map.empty of
              Inl e \<Rightarrow> Inl e
            | Inr Y \<Rightarrow> store_both results b a ''YN00'' Y)"
  using assms by (simp add: yn00_line_def py_index_def store_both_def split: sum.splits)

lemma parse_yn00_single:
  "parse_yn00 [line] results sequences = yn00_line sequences results line"
  by (simp add: parse_yn00_def split: sum.splits)

lemma parse_yn00_row8:
  "parse_yn00 [example_row8] results [a, b] = Inl IndexError"
  by (simp only: parse_yn00_single yn00_line_2_1 [OF row8_floats row8_res digits_val_2_1]
                 yn00_fields_8 sum.case)

lemma parse_yn00_row9:
  "parse_yn00 [example_row9] results [a, b] =
     store_both results b a ''YN00''
       [''S'' \<mapsto> PyFloat (Finite False (673 / 10)),
        ''N'' \<mapsto> PyFloat (Finite False (1547 / 10)),
        ''t'' \<mapsto> PyFloat (Finite False (136 / 10000)),
        ''kappa'' \<mapsto> PyFloat (Finite False (36564 / 10000)),
        ''omega'' \<mapsto> PyFloat (Finite False 0),
        ''dN'' \<mapsto> PyFloat (Finite True 0),
        ''dN SE'' \<mapsto> PyFloat (Finite False 0),
        ''dS'' \<mapsto> PyFloat (Finite False (15 / 1000)),
        ''dS SE'' \<mapsto> PyFloat (Finite False (151 / 10000))]"
  by (simp only: parse_yn00_single yn00_line_2_1 [OF row9_floats row9_res digits_val_2_1]
                 yn00_fields_9 sum.case)

text \<open>
  C1, as the code has it. The example row of the claim carries eight numbers, and the
  ninth field \<^verbatim>\<open>dS SE\<close> is read from the same line: on that line the parse raises
  \<^verbatim>\<open>IndexError\<close> and returns no table, whatever the table was. When the row carries
  its ninth number on the same line (\<^verbatim>\<open>... 0.0150 +- 0.0151\<close>), and the table holds the
  pair entries of A and B, the parse succeeds and \<^verbatim>\<open>results["B"]["A"]["YN00"]\<close> has
  S = 67.3, N = 154.7, t = 0.0136, kappa = 3.6564, omega = 0.0, dN = -0.0, dN SE = 0.0,
  dS = 0.015 and dS SE = 0.0151; the same statistics are at
  \<^verbatim>\<open>results["A"]["B"]["YN00"]\<close>.
\<close>

theorem yn00_example_row:
  assumes "results ''A'' = Some rowA" and "rowA ''B'' = Some pAB"
      and "results ''B'' = Some rowB" and "rowB ''A'' = Some pBA"
  shows "parse_yn00 [example_row8] results [''A'', ''B''] = Inl IndexError
       \<and> (\<exists>r. parse_yn00 [example_row9] results [''A'', ''B''] = Inr r
            \<and> lookup_method r ''B'' ''A'' ''YN00'' =
                Some [''S'' \<mapsto> PyFloat (Finite False (673 / 10)),
                      ''N'' \<mapsto> PyFloat (Finite False (1547 / 10)),
                      ''t'' \<mapsto> PyFloat (Finite False (136 / 10000)),
                      ''kappa'' \<mapsto> PyFloat (Finite False (36564 / 10000)),
                      ''omega'' \<mapsto> PyFloat (Finite False 0),
                      ''dN'' \<mapsto> PyFloat (Finite True 0),
                      ''dN SE'' \<mapsto> PyFloat (Finite False 0),
                      ''dS'' \<mapsto> PyFloat (Finite False (15 / 1000)),
                      ''dS SE'' \<mapsto> PyFloat (Finite False (151 / 10000))]
            \<and> lookup_method r ''A'' ''B'' ''YN00'' = lookup_method r ''B'' ''A'' ''YN00'')"
proof (rule conjI)
  show "parse_yn00 [example_row8] results [''A'', ''B''] = Inl IndexError"
    by (rule parse_yn00_row8)
next
  let ?Y = "[''S'' \<mapsto> PyFloat (Finite False (673 / 10)),
             ''N'' \<mapsto> PyFloat (Finite False (1547 / 10)),
             ''t'' \<mapsto> PyFloat (Finite False (136 / 10000)),
             ''kappa'' \<mapsto> PyFloat (Finite False (36564 / 10000)),
             ''omega'' \<mapsto> PyFloat (Finite False 0),
             ''dN'' \<mapsto> PyFloat (Finite True 0),
             ''dN SE'' \<mapsto> PyFloat (Finite False 0),
             ''dS'' \<mapsto> PyFloat (Finite False (15 / 1000)),
             ''dS SE'' \<mapsto> PyFloat (Finite False (151 / 10000))]"
  from store_both_lookup [OF assms(3,4,1,2)]
  obtain r where r: "store_both results ''B'' ''A'' ''YN00'' ?Y = Inr r"
    "lookup_method r ''B'' ''A'' ''YN00'' = Some ?Y"
    "lookup_method r ''A'' ''B'' ''YN00'' = Some ?Y"
    by metis
  show "\<exists>r. parse_yn00 [example_row9] results [''A'', ''B''] = Inr r
            \<and> lookup_method r ''B'' ''A'' ''YN00'' = Some ?Y
            \<and> lookup_method r ''A'' ''B'' ''YN00'' = lookup_method r ''B'' ''A'' ''YN00''"
    by (rule exI [of _ r]) (simp only: parse_yn00_row9 r simp_thms)
qed

theorem yn00_example_row_witness:
  "parse_yn00 [example_row8] (pair_table ''A'' ''B'') [''A'', ''B''] = Inl IndexError
   \<and> (\<exists>r. parse_yn00 [example_row9] (pair_table ''A'' ''B'') [''A'', ''B''] = Inr r
        \<and> lookup_method r ''B'' ''A'' ''YN00'' =
            Some [''S'' \<mapsto> PyFloat (Finite False (673 / 10)),
                  ''N'' \<mapsto> PyFloat (Finite False (1547 / 10)),
                  ''t'' \<mapsto> PyFloat (Finite False (136 / 10000)),
                  ''kappa'' \<mapsto> PyFloat (Finite False (36564 / 10000)),
                  ''omega'' \<mapsto> PyFloat (Finite False 0),
                  ''dN'' \<mapsto> PyFloat (Finite True 0),
                  ''dN SE'' \<mapsto> PyFloat (Finite False 0),
                  ''dS'' \<mapsto> PyFloat (Finite False (15 / 1000)),
                  ''dS SE'' \<mapsto> PyFloat (Finite False (151 / 10000))]
        \<and> lookup_method r ''A'' ''B'' ''YN00'' = lookup_method r ''B'' ''A'' ''YN00'')"
proof -
  have a: "pair_table ''A'' ''B'' ''A'' = Some [''B'' \<mapsto> Map.empty]"
    and b: "pair_table ''A'' ''B'' ''B'' = Some [''A'' \<mapsto> Map.empty]"
    by (simp_all add: pair_table_def)
  have ab: "[''B'' \<mapsto> (Map.empty :: pair_result)] ''B'' = Some Map.empty"
    and ba: "[''A'' \<mapsto> (Map.empty :: pair_result)] ''A'' = Some Map.empty"
    by simp_all
  show ?thesis by (rule yn00_example_row [OF a ab b ba])
qed

text \<open>
  C1 as stated fails: on the single line of the claim, with the sequence list A, B and a
  table that holds the pair entries, the parse does not succeed.
\<close>

theorem yn00_single_line_counterexample:
  "parse_yn00 [example_row8] (pair_table ''A'' ''B'') [''A'', ''B''] = Inl IndexError"
  by (simp only: parse_yn00_single yn00_line_2_1 [OF row8_floats row8_res digits_val_2_1]
                 yn00_fields_8 sum.case)

section \<open>The grouped methods: lemmas\<close>

lemma set_method_Inr:
  "set_method results a b m stats = Inr r \<Longrightarrow>
     \<exists>row pair. results a = Some row \<and> row b = Some pair
        \<and> r = results(a \<mapsto> row(b \<mapsto> pair(m \<mapsto> stats)))"
  by (auto simp: set_method_def split: option.splits)

lemma lookup_method_set_method:
  "set_method results a b m stats = Inr r \<Longrightarrow>
     lookup_method r x y m' =
       (if x = a \<and> y = b \<and> m' = m then Some stats else lookup_method results x y m')"
  by (auto simp: set_method_def lookup_method_def lookup_pair_def
           split: option.splits if_splits)

lemma lookup_method_store_both:
  assumes "store_both results a b m stats = Inr r"
  shows "lookup_method r x y m' =
       (if (x = a \<and> y = b \<or> x = b \<and> y = a) \<and> m' = m then Some stats
        else lookup_method results x y m')"
proof -
  from assms obtain r1 where 1: "set_method results a b m stats = Inr r1"
    and 2: "set_method r1 b a m stats = Inr r"
    by (auto simp: store_both_def split: sum.splits)
  show ?thesis
    by (auto simp: lookup_method_set_method [OF 2] lookup_method_set_method [OF 1])
qed

lemma lower_cases:
  "lower c = c \<or> (97 \<le> (of_char (lower c) :: nat) \<and> (of_char (lower c) :: nat) \<le> 122)"
  by (auto simp: lower_def)

lemma lower_space: "is_space c \<Longrightarrow> lower c = c"
  by (auto simp: is_space_def lower_def)

lemma lower_sign:
  "lower c = CHR ''-'' \<Longrightarrow> c = CHR ''-''" "lower c = CHR ''+'' \<Longrightarrow> c = CHR ''+''"
  using lower_cases [of c] by auto

lemma lower_letter_not_space:
  "lower c = d \<Longrightarrow> \<not> is_space d \<Longrightarrow> \<not> is_space c"
  using lower_space by auto

lemma dropWhile_hd: "s \<noteq> [] \<Longrightarrow> \<not> p (hd s) \<Longrightarrow> dropWhile p s = s"
  by (cases s) auto

lemma strip_no_space:
  assumes "s \<noteq> []" and "\<not> is_space (hd s)" and "\<not> is_space (last s)"
  shows "strip s = s"
proof -
  have "dropWhile is_space s = s" using assms by (simp add: dropWhile_hd)
  moreover have "dropWhile is_space (rev s) = rev s"
    using assms by (intro dropWhile_hd) (simp_all add: hd_rev)
  ultimately show ?thesis by (simp add: strip_def strip_with_def)
qed

lemma not_space_letters:
  "\<not> is_space (CHR ''n'')" "\<not> is_space (CHR ''-'')" "\<not> is_space (CHR ''+'')"
  by (simp_all add: is_space_def)

lemma py_float_nan: "nan_marker v \<Longrightarrow> py_float v = Some NaN"
proof -
  assume "nan_marker v"
  then consider (a) "map lower v = ''nan''" | (b) "map lower v = ''-nan''" | (c) "map lower v = ''+nan''"
    by (auto simp: nan_marker_def)
  then show ?thesis
  proof cases
    case a
    then obtain x y z where v: "v = [x, y, z]" "lower x = CHR ''n''" "lower y = CHR ''a''" "lower z = CHR ''n''"
      by (auto simp: map_eq_Cons_conv)
    have "\<not> is_space x" "\<not> is_space z"
      using v lower_letter_not_space not_space_letters by blast+
    then have "strip v = v" using v by (intro strip_no_space) auto
    moreover have "x \<noteq> CHR ''-''" "x \<noteq> CHR ''+''" using v by (auto simp: lower_def)
    ultimately show ?thesis using v by (simp add: py_float_def)
  next
    case b
    then obtain s x y z where v: "v = [s, x, y, z]" "lower s = CHR ''-''" "lower x = CHR ''n''" "lower y = CHR ''a''" "lower z = CHR ''n''"
      by (auto simp: map_eq_Cons_conv)
    have s: "s = CHR ''-''" using v lower_sign by blast
    have "\<not> is_space s" "\<not> is_space z"
      using v lower_letter_not_space not_space_letters by blast+
    then have "strip v = v" using v by (intro strip_no_space) auto
    then show ?thesis using v s by (simp add: py_float_def)
  next
    case c
    then obtain s x y z where v: "v = [s, x, y, z]" "lower s = CHR ''+''" "lower x = CHR ''n''" "lower y = CHR ''a''" "lower z = CHR ''n''"
      by (auto simp: map_eq_Cons_conv)
    have s: "s = CHR ''+''" using v lower_sign by blast
    have "\<not> is_space s" "\<not> is_space z"
      using v lower_letter_not_space not_space_letters by blast+
    then have "strip v = v" using v by (intro strip_no_space) auto
    then show ?thesis using v s by (simp add: py_float_def)
  qed
qed

lemma build_stats_error:
  "length toks mod 3 \<noteq> 0 \<Longrightarrow> build_stats line toks stats = Inl (StatsLineError line)"
  by (induction line toks stats rule: build_stats.induct) (auto simp: Let_def)

lemma build_stats_ok:
  "length toks mod 3 = 0 \<Longrightarrow> \<exists>st. build_stats line toks stats = Inr st"
  by (induction line toks stats rule: build_stats.induct) (auto simp: Let_def)

lemma build_stats_nan:
  "build_stats line toks stats = Inr st \<Longrightarrow>
   \<forall>v\<in>set (value_tokens toks). nan_marker (strip_chars ''()'' v) \<Longrightarrow>
   st k = Some (PyFloat NaN) \<or> st k = stats k"
proof (induction toks arbitrary: stats rule: value_tokens.induct)
  case (1 k' e v toks)
  let ?stat = "if strip_chars ''()'' k' = ''w'' then ''omega'' else strip_chars ''()'' k'"
  from "1.prems" have nan: "py_float (strip_chars ''()'' v) = Some NaN"
    by (simp add: py_float_nan)
  from "1.prems" have "build_stats line toks (stats(?stat \<mapsto> PyFloat NaN)) = Inr st"
    by (simp add: Let_def nan)
  from "1.IH" [OF this] "1.prems"(2)
  have "st k = Some (PyFloat NaN) \<or> st k = (stats(?stat \<mapsto> PyFloat NaN)) k" by simp
  then show ?case by (auto split: if_splits)
qed simp_all


lemma example_header_res: "comp_res example_header = Some (''Pan_troglo'', ''Homo_sapie'')"
  by (simp add: example_header_def str_eval)

lemma example_not_header:
  "comp_res example_lwl85 = None" "comp_res example_lwl85m = None"
  "comp_res mixed_label_line = None" "comp_res spaced_label_line = None"
  by (simp_all add: example_lwl85_def example_lwl85m_def mixed_label_line_def
        spaced_label_line_def comp_res_def span_digits_def is_digit_def)

lemma example_dS:
  "contains ''dS ='' example_lwl85" "contains ''dS ='' example_lwl85m"
  "contains ''dS ='' mixed_label_line" "contains ''dS ='' spaced_label_line"
  by (simp_all add: example_lwl85_def example_lwl85m_def mixed_label_line_def
        spaced_label_line_def)

lemma stats_line_lwl85:
  "stats_line results n1 n2 example_lwl85 =
     store_both results n1 n2 ''LWL85''
       [''dS'' \<mapsto> PyFloat (Finite False (227 / 10000)),
        ''dN'' \<mapsto> PyFloat (Finite False 0),
        ''omega'' \<mapsto> PyFloat (Finite False 0),
        ''S'' \<mapsto> PyFloat (Finite False 45),
        ''N'' \<mapsto> PyFloat (Finite False 177)]"
  by (simp add: stats_line_def example_lwl85_def str_eval py_index_def)

lemma stats_line_lwl85m:
  "stats_line results n1 n2 example_lwl85m =
     store_both results n1 n2 ''LWL85m''
       [''dS'' \<mapsto> PyFloat NaN, ''dN'' \<mapsto> PyFloat NaN, ''omega'' \<mapsto> PyFloat NaN,
        ''S'' \<mapsto> PyFloat NaN, ''N'' \<mapsto> PyFloat NaN, ''rho'' \<mapsto> PyFloat NaN]"
  by (simp add: stats_line_def example_lwl85m_def str_eval py_index_def)

lemma stats_line_mixed:
  "stats_line results n1 n2 mixed_label_line =
     store_both results n1 n2 ''LWL85''
       [''dS'' \<mapsto> PyFloat (Finite False (1 / 10)), ''LWL85m'' \<mapsto> PyFloat (Finite False (2 / 10))]"
  by (simp add: stats_line_def mixed_label_line_def str_eval py_index_def)

lemma stats_line_spaced: "stats_line results n1 n2 spaced_label_line = Inr results"
  by (simp add: stats_line_def spaced_label_line_def str_eval py_index_def)

lemma others_line_header:
  "comp_res line = Some (g1, g2) \<Longrightarrow>
     others_line st line = Inr (st\<lparr>seq_name1 := Some g1, seq_name2 := Some g2\<rparr>)"
  by (simp add: others_line_def)

lemma others_line_stats:
  "comp_res line = None \<Longrightarrow> seq_name1 st = Some n1 \<Longrightarrow> seq_name2 st = Some n2 \<Longrightarrow>
   contains ''dS ='' line \<Longrightarrow>
     others_line st line =
       (case stats_line (o_results st) n1 n2 line of
          Inl e \<Rightarrow> Inl e
        | Inr results1 \<Rightarrow> Inr (st\<lparr>o_results := results1\<rparr>))"
  by (simp add: others_line_def)

lemma others_line_no_context:
  "comp_res line = None \<Longrightarrow> seq_name1 st = None \<or> seq_name2 st = None \<Longrightarrow>
     others_line st line = Inr st"
  by (auto simp: others_line_def split: option.splits)

lemma parse_others_header_stats:
  assumes "comp_res h = Some (g1, g2)" and "comp_res l = None" and "contains ''dS ='' l"
  shows "parse_others [h, l] results sequences = stats_line results g1 g2 l"
  using assms
  by (simp add: parse_others_def others_line_header others_line_stats [where ?n1.0 = g1 and ?n2.0 = g2]
           split: sum.splits)

lemma parse_others_example_lwl85:
  "parse_others [example_header, example_lwl85] results sequences =
     store_both results ''Pan_troglo'' ''Homo_sapie'' ''LWL85''
       [''dS'' \<mapsto> PyFloat (Finite False (227 / 10000)),
        ''dN'' \<mapsto> PyFloat (Finite False 0),
        ''omega'' \<mapsto> PyFloat (Finite False 0),
        ''S'' \<mapsto> PyFloat (Finite False 45),
        ''N'' \<mapsto> PyFloat (Finite False 177)]"
  by (simp only: parse_others_header_stats [OF example_header_res example_not_header(1) example_dS(1)]
                 stats_line_lwl85)


lemma store_both_stored_under:
  "store_both results n1 n2 m stats = Inr r \<Longrightarrow> stored_under results r n1 n2 m stats"
  by (simp add: stored_under_def lookup_method_store_both)

lemma store_both_Inr:
  assumes "results a = Some rowa" and "rowa b = Some pab"
      and "results b = Some rowb" and "rowb a = Some pba"
  shows "\<exists>r. store_both results a b m stats = Inr r"
  using store_both_lookup [OF assms] by blast

lemma stats_line_label:
  assumes "stats_line results n1 n2 line = Inr results'"
  shows "\<exists>part stats.
           py_index (py_split_on (CHR '':'') line) 1 = Inr part
         \<and> build_stats line (py_split (strip part)) Map.empty = Inr stats
         \<and> (contains ''LWL85:'' line \<longrightarrow> stored_under results results' n1 n2 ''LWL85'' stats)
         \<and> (\<not> contains ''LWL85:'' line \<and> contains ''LWL85m'' line \<longrightarrow>
              stored_under results results' n1 n2 ''LWL85m'' stats)
         \<and> (\<not> contains ''LWL85:'' line \<and> \<not> contains ''LWL85m'' line \<and> contains ''LPB93'' line \<longrightarrow>
              stored_under results results' n1 n2 ''LPB93'' stats)
         \<and> (\<not> contains ''LWL85:'' line \<and> \<not> contains ''LWL85m'' line \<and> \<not> contains ''LPB93'' line \<longrightarrow>
              results' = results)"
proof -
  from assms obtain part where part: "py_index (py_split_on (CHR '':'') line) 1 = Inr part"
    by (auto simp: stats_line_def split: sum.splits)
  from assms part obtain stats
    where stats: "build_stats line (py_split (strip part)) Map.empty = Inr stats"
    by (auto simp: stats_line_def Let_def split: sum.splits)
  from assms part stats
  have "(if contains ''LWL85:'' line then store_both results n1 n2 ''LWL85'' stats
         else if contains ''LWL85m'' line then store_both results n1 n2 ''LWL85m'' stats
         else if contains ''LPB93'' line then store_both results n1 n2 ''LPB93'' stats
         else Inr results) = Inr results'"
    by (simp add: stats_line_def Let_def)
  then have "(contains ''LWL85:'' line \<longrightarrow> stored_under results results' n1 n2 ''LWL85'' stats)
         \<and> (\<not> contains ''LWL85:'' line \<and> contains ''LWL85m'' line \<longrightarrow>
              stored_under results results' n1 n2 ''LWL85m'' stats)
         \<and> (\<not> contains ''LWL85:'' line \<and> \<not> contains ''LWL85m'' line \<and> contains ''LPB93'' line \<longrightarrow>
              stored_under results results' n1 n2 ''LPB93'' stats)
         \<and> (\<not> contains ''LWL85:'' line \<and> \<not> contains ''LWL85m'' line \<and> \<not> contains ''LPB93'' line \<longrightarrow>
              results' = results)"
    by (auto simp: store_both_stored_under split: if_splits)
  with part stats show ?thesis by blast
qed

lemma others_loop_append:
  "others_loop (xs @ ys) st =
     (case others_loop xs st of Inl e \<Rightarrow> Inl e | Inr st1 \<Rightarrow> others_loop ys st1)"
  by (induction xs arbitrary: st) (auto split: sum.splits)

lemma others_loop_no_context:
  "\<forall>l\<in>set pre. comp_res l = None \<Longrightarrow> seq_name1 st = None \<or> seq_name2 st = None \<Longrightarrow>
     others_loop (pre @ rest) st = others_loop rest st"
  by (induction pre arbitrary: st) (simp_all add: others_line_no_context)

lemma stats_line_truncated:
  assumes "py_index (py_split_on (CHR '':'') line) 1 = Inr part"
      and "length (py_split (strip part)) mod 3 \<noteq> 0"
  shows "stats_line results n1 n2 line = Inl (StatsLineError line)"
  using assms by (simp add: stats_line_def build_stats_error)

lemma truncated_line_facts:
  "comp_res truncated_line = None" "contains ''dS ='' truncated_line"
  "py_index (py_split_on (CHR '':'') truncated_line) 1 = Inr ''  dS =  0.0227 dN =''"
  "py_split (strip ''  dS =  0.0227 dN ='') = [''dS'', ''='', ''0.0227'', ''dN'', ''='']"
  by (simp_all add: truncated_line_def comp_res_def span_digits_def is_digit_def py_index_def
        py_split_on_def py_split_def strip_def strip_with_def is_space_def)


section \<open>The grouped methods: statements\<close>

lemma pair_table_PH:
  "pair_table ''Pan_troglo'' ''Homo_sapie'' ''Pan_troglo'' = Some [''Homo_sapie'' \<mapsto> Map.empty]"
  "pair_table ''Pan_troglo'' ''Homo_sapie'' ''Homo_sapie'' = Some [''Pan_troglo'' \<mapsto> Map.empty]"
  "[''Homo_sapie'' \<mapsto> (Map.empty :: pair_result)] ''Homo_sapie'' = Some Map.empty"
  "[''Pan_troglo'' \<mapsto> (Map.empty :: pair_result)] ''Pan_troglo'' = Some Map.empty"
  by (simp_all add: pair_table_def)

text \<open>
  C6. With a table that holds the pair entries of \<^verbatim>\<open>Pan_troglo\<close> and \<^verbatim>\<open>Homo_sapie\<close>,
  the header line \<^verbatim>\<open>2 (Pan_troglo) vs. 1 (Homo_sapie)\<close> followed by the \<^verbatim>\<open>LWL85:\<close>
  line of the example gives \<^verbatim>\<open>results["Pan_troglo"]["Homo_sapie"]["LWL85"]\<close> equal to
  dS = 0.0227, dN = 0.0, omega = 0.0, S = 45.0, N = 177.0 (the key \<^verbatim>\<open>w\<close> renamed to
  \<^verbatim>\<open>omega\<close>), and the same statistics at \<^verbatim>\<open>results["Homo_sapie"]["Pan_troglo"]["LWL85"]\<close>.
\<close>

theorem others_example_lwl85:
  assumes "results ''Pan_troglo'' = Some rowP" and "rowP ''Homo_sapie'' = Some pPH"
      and "results ''Homo_sapie'' = Some rowH" and "rowH ''Pan_troglo'' = Some pHP"
  shows "\<exists>r. parse_others [example_header, example_lwl85] results sequences = Inr r
           \<and> lookup_method r ''Pan_troglo'' ''Homo_sapie'' ''LWL85'' =
               Some [''dS'' \<mapsto> PyFloat (Finite False (227 / 10000)),
                     ''dN'' \<mapsto> PyFloat (Finite False 0),
                     ''omega'' \<mapsto> PyFloat (Finite False 0),
                     ''S'' \<mapsto> PyFloat (Finite False 45),
                     ''N'' \<mapsto> PyFloat (Finite False 177)]
           \<and> lookup_method r ''Homo_sapie'' ''Pan_troglo'' ''LWL85'' =
               lookup_method r ''Pan_troglo'' ''Homo_sapie'' ''LWL85''"
proof -
  let ?S = "[''dS'' \<mapsto> PyFloat (Finite False (227 / 10000)),
             ''dN'' \<mapsto> PyFloat (Finite False 0),
             ''omega'' \<mapsto> PyFloat (Finite False 0),
             ''S'' \<mapsto> PyFloat (Finite False 45),
             ''N'' \<mapsto> PyFloat (Finite False 177)]"
  from store_both_lookup [OF assms]
  obtain r where r: "store_both results ''Pan_troglo'' ''Homo_sapie'' ''LWL85'' ?S = Inr r"
    "lookup_method r ''Pan_troglo'' ''Homo_sapie'' ''LWL85'' = Some ?S"
    "lookup_method r ''Homo_sapie'' ''Pan_troglo'' ''LWL85'' = Some ?S"
    by metis
  show ?thesis
    by (rule exI [of _ r]) (simp only: parse_others_example_lwl85 r simp_thms)
qed

theorem others_example_lwl85_witness:
  "\<exists>r. parse_others [example_header, example_lwl85]
          (pair_table ''Pan_troglo'' ''Homo_sapie'') [''Homo_sapie'', ''Pan_troglo''] = Inr r
      \<and> lookup_method r ''Pan_troglo'' ''Homo_sapie'' ''LWL85'' =
          Some [''dS'' \<mapsto> PyFloat (Finite False (227 / 10000)),
                ''dN'' \<mapsto> PyFloat (Finite False 0),
                ''omega'' \<mapsto> PyFloat (Finite False 0),
                ''S'' \<mapsto> PyFloat (Finite False 45),
                ''N'' \<mapsto> PyFloat (Finite False 177)]
      \<and> lookup_method r ''Homo_sapie'' ''Pan_troglo'' ''LWL85'' =
          lookup_method r ''Pan_troglo'' ''Homo_sapie'' ''LWL85''"
  by (rule others_example_lwl85 [OF pair_table_PH(1) pair_table_PH(3) pair_table_PH(2) pair_table_PH(4)])

text \<open>
  C10. Lines before the first header line, also lines that contain \<^verbatim>\<open>dS =\<close>, are
  skipped: when no line of \<open>pre\<close> is a header, parsing \<open>pre\<close> raises no error and
  returns the table unchanged, and parsing \<open>pre\<close> followed by more lines is parsing
  those lines alone.
\<close>

theorem others_before_header_skipped:
  assumes "\<forall>l\<in>set pre. comp_res l = None"
  shows "parse_others pre results sequences = Inr results
       \<and> parse_others (pre @ rest) results sequences = parse_others rest results sequences"
proof -
  let ?st = "\<lparr>seq_name1 = None, seq_name2 = None, o_results = results\<rparr>"
  have "others_loop (pre @ rest') ?st = others_loop rest' ?st" for rest'
    using assms by (intro others_loop_no_context) simp_all
  from this [of "[]"] this [of rest] show ?thesis by (simp add: parse_others_def)
qed

theorem others_before_header_skipped_witness:
  "contains ''dS ='' example_lwl85 \<and> contains ''dS ='' truncated_line
   \<and> parse_others [example_lwl85, truncated_line] Map.empty [] = Inr Map.empty
   \<and> parse_others ([example_lwl85, truncated_line] @ [example_header]) Map.empty []
       = parse_others [example_header] Map.empty []"
proof -
  have "\<forall>l\<in>set [example_lwl85, truncated_line]. comp_res l = None"
    by (simp add: example_not_header truncated_line_facts)
  from others_before_header_skipped [OF this, of Map.empty "[]" "[example_header]"]
  show ?thesis by (simp add: example_dS truncated_line_facts)
qed

text \<open>
  C8. Under an active pair context (the lines \<open>pre\<close> were parsed without error and
  left both sequence names set), a line that is no header, contains \<^verbatim>\<open>dS =\<close>, and
  whose token stream (the text between the first and the second colon, split at
  whitespace) ends inside a group of three, raises the error that carries the line; the
  whole parse ends with that error, whatever lines follow.
\<close>

theorem others_truncated_stats_line:
  assumes "others_loop pre \<lparr>seq_name1 = None, seq_name2 = None, o_results = results\<rparr> = Inr st"
      and "seq_name1 st = Some n1" and "seq_name2 st = Some n2"
      and "comp_res line = None" and "contains ''dS ='' line"
      and "py_index (py_split_on (CHR '':'') line) 1 = Inr part"
      and "length (py_split (strip part)) mod 3 \<noteq> 0"
  shows "others_line st line = Inl (StatsLineError line)
       \<and> parse_others (pre @ line # rest) results sequences = Inl (StatsLineError line)"
proof -
  have 1: "others_line st line = Inl (StatsLineError line)"
    using assms(2-5) stats_line_truncated [OF assms(6,7)]
    by (simp add: others_line_stats)
  then show ?thesis using assms(1)
    by (simp add: parse_others_def others_loop_append)
qed

theorem others_truncated_stats_line_witness:
  "parse_others ([example_header] @ truncated_line # [example_lwl85]) Map.empty []
     = Inl (StatsLineError truncated_line)"
proof -
  let ?st = "\<lparr>seq_name1 = Some ''Pan_troglo'', seq_name2 = Some ''Homo_sapie'',
              o_results = (Map.empty :: result_table)\<rparr>"
  have pre: "others_loop [example_header]
               \<lparr>seq_name1 = None, seq_name2 = None, o_results = Map.empty\<rparr> = Inr ?st"
    by (simp add: others_line_header [OF example_header_res])
  have len: "length (py_split (strip ''  dS =  0.0227 dN ='')) mod 3 \<noteq> 0"
    by (simp add: truncated_line_facts(4))
  from others_truncated_stats_line [OF pre _ _ truncated_line_facts(1,2,3) len,
        of "''Pan_troglo''" "''Homo_sapie''" "[example_lwl85]" "[]"]
  show ?thesis by simp
qed


lemma others_line_stats_Inr:
  assumes "seq_name1 st = Some n1" and "seq_name2 st = Some n2"
      and "comp_res line = None" and "contains ''dS ='' line"
      and "others_line st line = Inr st'"
  shows "stats_line (o_results st) n1 n2 line = Inr (o_results st')"
  using assms by (auto simp: others_line_stats [OF assms(3,1,2,4)] split: sum.splits)

text \<open>
  C4, as the code has it. For a statistics line parsed without error under the active
  pair \<open>n1\<close>, \<open>n2\<close>, with \<open>stats\<close> the statistics built from its tokens: a line
  that contains \<^verbatim>\<open>LWL85:\<close> (with the colon) has them stored under \<^verbatim>\<open>LWL85\<close>;
  otherwise a line that contains \<^verbatim>\<open>LWL85m\<close> has them stored under \<^verbatim>\<open>LWL85m\<close>;
  otherwise a line that contains \<^verbatim>\<open>LPB93\<close> has them stored under \<^verbatim>\<open>LPB93\<close>; each
  time in both directions of the pair and with every other method label unchanged. A
  line with none of the three leaves the table unchanged.
\<close>

theorem others_method_label:
  assumes "seq_name1 st = Some n1" and "seq_name2 st = Some n2"
      and "comp_res line = None" and "contains ''dS ='' line"
      and "others_line st line = Inr st'"
  shows "\<exists>part stats.
           py_index (py_split_on (CHR '':'') line) 1 = Inr part
         \<and> build_stats line (py_split (strip part)) Map.empty = Inr stats
         \<and> (contains ''LWL85:'' line \<longrightarrow>
              stored_under (o_results st) (o_results st') n1 n2 ''LWL85'' stats)
         \<and> (\<not> contains ''LWL85:'' line \<and> contains ''LWL85m'' line \<longrightarrow>
              stored_under (o_results st) (o_results st') n1 n2 ''LWL85m'' stats)
         \<and> (\<not> contains ''LWL85:'' line \<and> \<not> contains ''LWL85m'' line \<and> contains ''LPB93'' line \<longrightarrow>
              stored_under (o_results st) (o_results st') n1 n2 ''LPB93'' stats)
         \<and> (\<not> contains ''LWL85:'' line \<and> \<not> contains ''LWL85m'' line \<and> \<not> contains ''LPB93'' line \<longrightarrow>
              o_results st' = o_results st)"
  by (rule stats_line_label [OF others_line_stats_Inr [OF assms]])

lemma example_lwl85m_labels:
  "contains ''LWL85m'' example_lwl85m" "\<not> contains ''LWL85:'' example_lwl85m"
  by (simp_all add: example_lwl85m_def)

lemma pair_table_no_method:
  "lookup_method (pair_table a b) x y m = None"
  by (auto simp: lookup_method_def lookup_pair_def pair_table_def split: option.splits if_splits)

theorem others_method_label_witness:
  "\<exists>st'. others_line \<lparr>seq_name1 = Some ''Pan_troglo'', seq_name2 = Some ''Homo_sapie'',
                        o_results = pair_table ''Pan_troglo'' ''Homo_sapie''\<rparr> example_lwl85m = Inr st'
      \<and> contains ''LWL85m'' example_lwl85m \<and> \<not> contains ''LWL85:'' example_lwl85m
      \<and> lookup_method (o_results st') ''Pan_troglo'' ''Homo_sapie'' ''LWL85m'' \<noteq> None
      \<and> lookup_method (o_results st') ''Homo_sapie'' ''Pan_troglo'' ''LWL85m'' \<noteq> None
      \<and> lookup_method (o_results st') ''Pan_troglo'' ''Homo_sapie'' ''LWL85'' = None"
proof -
  let ?T = "pair_table ''Pan_troglo'' ''Homo_sapie''"
  let ?st = "\<lparr>seq_name1 = Some ''Pan_troglo'', seq_name2 = Some ''Homo_sapie'', o_results = ?T\<rparr>"
  let ?S = "[''dS'' \<mapsto> PyFloat NaN, ''dN'' \<mapsto> PyFloat NaN, ''omega'' \<mapsto> PyFloat NaN,
             ''S'' \<mapsto> PyFloat NaN, ''N'' \<mapsto> PyFloat NaN, ''rho'' \<mapsto> PyFloat NaN]"
  from store_both_Inr [OF pair_table_PH(1) pair_table_PH(3) pair_table_PH(2) pair_table_PH(4)]
  obtain r where r: "store_both ?T ''Pan_troglo'' ''Homo_sapie'' ''LWL85m'' ?S = Inr r"
    by blast
  have step: "others_line ?st example_lwl85m = Inr (?st\<lparr>o_results := r\<rparr>)"
    by (simp add: others_line_stats [OF example_not_header(2) _ _ example_dS(2)]
                  stats_line_lwl85m r)
  from others_method_label [OF _ _ example_not_header(2) example_dS(2) step]
  obtain stats where "stored_under ?T r ''Pan_troglo'' ''Homo_sapie'' ''LWL85m'' stats"
    using example_lwl85m_labels by auto
  then have "lookup_method r ''Pan_troglo'' ''Homo_sapie'' ''LWL85m'' \<noteq> None"
    "lookup_method r ''Homo_sapie'' ''Pan_troglo'' ''LWL85m'' \<noteq> None"
    "lookup_method r ''Pan_troglo'' ''Homo_sapie'' ''LWL85'' = None"
    by (simp_all add: stored_under_def pair_table_no_method)
  with step example_lwl85m_labels show ?thesis by simp
qed

lemma mixed_spaced_labels:
  "contains ''LWL85m'' mixed_label_line"
  "contains ''LWL85'' spaced_label_line" "\<not> contains ''LWL85m'' spaced_label_line"
  by (simp_all add: mixed_label_line_def spaced_label_line_def)

text \<open>
  C4 as stated fails twice. A statistics line that contains \<^verbatim>\<open>LWL85m\<close> and also
  \<^verbatim>\<open>LWL85:\<close> is stored under \<^verbatim>\<open>LWL85\<close> and not under \<^verbatim>\<open>LWL85m\<close>; a statistics
  line that contains \<^verbatim>\<open>LWL85\<close> without the colon behind it, and not \<^verbatim>\<open>LWL85m\<close>, is
  not stored at all.
\<close>

theorem others_label_counterexample:
  "contains ''LWL85m'' mixed_label_line
   \<and> (\<exists>r. parse_others [example_header, mixed_label_line]
             (pair_table ''Pan_troglo'' ''Homo_sapie'') [] = Inr r
        \<and> lookup_method r ''Pan_troglo'' ''Homo_sapie'' ''LWL85m'' = None
        \<and> lookup_method r ''Pan_troglo'' ''Homo_sapie'' ''LWL85'' =
            Some [''dS'' \<mapsto> PyFloat (Finite False (1 / 10)),
                  ''LWL85m'' \<mapsto> PyFloat (Finite False (2 / 10))])
   \<and> contains ''LWL85'' spaced_label_line \<and> \<not> contains ''LWL85m'' spaced_label_line
   \<and> parse_others [example_header, spaced_label_line]
        (pair_table ''Pan_troglo'' ''Homo_sapie'') []
       = Inr (pair_table ''Pan_troglo'' ''Homo_sapie'')"
proof -
  let ?T = "pair_table ''Pan_troglo'' ''Homo_sapie''"
  let ?S = "[''dS'' \<mapsto> PyFloat (Finite False (1 / 10)),
             ''LWL85m'' \<mapsto> PyFloat (Finite False (2 / 10))]"
  from store_both_Inr [OF pair_table_PH(1) pair_table_PH(3) pair_table_PH(2) pair_table_PH(4)]
  obtain r where r: "store_both ?T ''Pan_troglo'' ''Homo_sapie'' ''LWL85'' ?S = Inr r"
    by blast
  have 1: "parse_others [example_header, mixed_label_line] ?T [] = Inr r"
    by (simp only: parse_others_header_stats [OF example_header_res example_not_header(3) example_dS(3)]
                   stats_line_mixed r)
  have 2: "lookup_method r ''Pan_troglo'' ''Homo_sapie'' ''LWL85m'' = None"
    "lookup_method r ''Pan_troglo'' ''Homo_sapie'' ''LWL85'' = Some ?S"
    by (simp_all add: lookup_method_store_both [OF r] pair_table_no_method)
  have 3: "parse_others [example_header, spaced_label_line] ?T [] = Inr ?T"
    by (simp only: parse_others_header_stats [OF example_header_res example_not_header(4) example_dS(4)]
                   stats_line_spaced)
  from 1 2 3 mixed_spaced_labels show ?thesis by simp
qed


lemma stats_line_Inr:
  assumes "py_index (py_split_on (CHR '':'') line) 1 = Inr part"
      and "build_stats line (py_split (strip part)) Map.empty = Inr stats"
      and "results n1 = Some row1" and "row1 n2 = Some p12"
      and "results n2 = Some row2" and "row2 n1 = Some p21"
  shows "\<exists>r. stats_line results n1 n2 line = Inr r"
  using assms(1,2) store_both_Inr [OF assms(3-6)]
  by (simp add: stats_line_def Let_def)

text \<open>
  C2, as the code has it. \<^verbatim>\<open>float\<close> accepts the text \<^verbatim>\<open>-nan\<close> and returns the
  not-a-number float, so the \<^verbatim>\<open>None\<close> of the \<^verbatim>\<open>except\<close> branch is not reached. For a
  statistics line under an active pair context whose pair entries exist, whose tokens
  come in complete groups of three and whose value tokens all are not-a-number markers:
  no error is raised, every key of the resulting statistics maps to the not-a-number
  float, no key maps to \<^verbatim>\<open>None\<close>, and the statistics are stored in both directions
  when the line names one of the three methods.
\<close>

theorem others_nan_values:
  assumes "seq_name1 st = Some n1" and "seq_name2 st = Some n2"
      and "comp_res line = None" and "contains ''dS ='' line"
      and "py_index (py_split_on (CHR '':'') line) 1 = Inr part"
      and "length (py_split (strip part)) mod 3 = 0"
      and "\<forall>v\<in>set (value_tokens (py_split (strip part))). nan_marker (strip_chars ''()'' v)"
      and "o_results st n1 = Some row1" and "row1 n2 = Some p12"
      and "o_results st n2 = Some row2" and "row2 n1 = Some p21"
  shows "\<exists>stats st'.
           build_stats line (py_split (strip part)) Map.empty = Inr stats
         \<and> others_line st line = Inr st'
         \<and> (\<forall>k\<in>dom stats. stats k = Some (PyFloat NaN))
         \<and> (\<forall>k. stats k \<noteq> Some PyNone)
         \<and> (contains ''LWL85:'' line \<or> contains ''LWL85m'' line \<or> contains ''LPB93'' line \<longrightarrow>
              (\<exists>m. lookup_method (o_results st') n1 n2 m = Some stats
                 \<and> lookup_method (o_results st') n2 n1 m = Some stats))"
proof -
  from build_stats_ok [OF assms(6)] obtain stats
    where stats: "build_stats line (py_split (strip part)) Map.empty = Inr stats"
    by blast
  have nan: "stats k = Some (PyFloat NaN) \<or> stats k = None" for k
    using build_stats_nan [OF stats assms(7), of k] by simp
  from stats_line_Inr [OF assms(5) stats assms(8-11)] obtain r
    where r: "stats_line (o_results st) n1 n2 line = Inr r"
    by blast
  have step: "others_line st line = Inr (st\<lparr>o_results := r\<rparr>)"
    by (simp add: others_line_stats [OF assms(3,1,2,4)] r)
  from stats_line_label [OF r] assms(5) stats
  have "contains ''LWL85:'' line \<or> contains ''LWL85m'' line \<or> contains ''LPB93'' line \<Longrightarrow>
          \<exists>m. stored_under (o_results st) r n1 n2 m stats"
    by auto
  then have stored: "contains ''LWL85:'' line \<or> contains ''LWL85m'' line \<or> contains ''LPB93'' line \<longrightarrow>
      (\<exists>m. lookup_method r n1 n2 m = Some stats \<and> lookup_method r n2 n1 m = Some stats)"
    by (auto simp: stored_under_def)
  have "(\<forall>k\<in>dom stats. stats k = Some (PyFloat NaN)) \<and> (\<forall>k. stats k \<noteq> Some PyNone)"
    using nan by (metis domIff option.inject option.simps(3) pyval.distinct(1))
  with stats step stored show ?thesis by (intro exI [of _ stats] exI [of _ "st\<lparr>o_results := r\<rparr>"]) simp
qed

lemma example_lwl85m_part:
  "py_index (py_split_on (CHR '':'') example_lwl85m) 1
     = Inr '' dS =    -nan dN =    -nan w =   -nan S =   -nan N =   -nan (rho = -nan)''"
  by (simp add: example_lwl85m_def py_index_def py_split_on_def)

lemma example_lwl85m_tokens:
  "py_split (strip '' dS =    -nan dN =    -nan w =   -nan S =   -nan N =   -nan (rho = -nan)'')
     = [''dS'', ''='', ''-nan'', ''dN'', ''='', ''-nan'', ''w'', ''='', ''-nan'',
        ''S'', ''='', ''-nan'', ''N'', ''='', ''-nan'', ''(rho'', ''='', ''-nan)'']"
  by (simp add: py_split_def strip_def strip_with_def is_space_def)

lemma nan_marker_examples:
  "nan_marker (strip_chars ''()'' ''-nan'')" "nan_marker (strip_chars ''()'' ''-nan)'')"
  by (simp_all add: nan_marker_def strip_chars_def strip_with_def lower_def)

theorem others_nan_values_witness:
  "\<exists>stats st'.
       build_stats example_lwl85m
         (py_split (strip '' dS =    -nan dN =    -nan w =   -nan S =   -nan N =   -nan (rho = -nan)''))
         Map.empty = Inr stats
     \<and> others_line \<lparr>seq_name1 = Some ''Pan_troglo'', seq_name2 = Some ''Homo_sapie'',
                     o_results = pair_table ''Pan_troglo'' ''Homo_sapie''\<rparr> example_lwl85m = Inr st'
     \<and> stats ''dS'' = Some (PyFloat NaN) \<and> stats ''rho'' = Some (PyFloat NaN)
     \<and> (\<exists>m. lookup_method (o_results st') ''Pan_troglo'' ''Homo_sapie'' m = Some stats
           \<and> lookup_method (o_results st') ''Homo_sapie'' ''Pan_troglo'' m = Some stats)"
proof -
  let ?st = "\<lparr>seq_name1 = Some ''Pan_troglo'', seq_name2 = Some ''Homo_sapie'',
              o_results = pair_table ''Pan_troglo'' ''Homo_sapie''\<rparr>"
  let ?toks = "py_split (strip '' dS =    -nan dN =    -nan w =   -nan S =   -nan N =   -nan (rho = -nan)'')"
  have len: "length ?toks mod 3 = 0"
    by (simp add: example_lwl85m_tokens)
  have vals: "\<forall>v\<in>set (value_tokens ?toks). nan_marker (strip_chars ''()'' v)"
    by (simp add: example_lwl85m_tokens nan_marker_examples)
  have c: "seq_name1 ?st = Some ''Pan_troglo''" "seq_name2 ?st = Some ''Homo_sapie''"
    by simp_all
  have t: "o_results ?st ''Pan_troglo'' = Some [''Homo_sapie'' \<mapsto> Map.empty]"
    "o_results ?st ''Homo_sapie'' = Some [''Pan_troglo'' \<mapsto> Map.empty]"
    by (simp_all add: pair_table_PH)
  note th = others_nan_values [OF c example_not_header(2) example_dS(2) example_lwl85m_part
        len vals t(1) pair_table_PH(3) t(2) pair_table_PH(4)]
  from th example_lwl85m_labels(1) obtain stats st' where *:
    "build_stats example_lwl85m ?toks Map.empty = Inr stats"
    "others_line ?st example_lwl85m = Inr st'"
    "\<forall>k\<in>dom stats. stats k = Some (PyFloat NaN)"
    "\<exists>m. lookup_method (o_results st') ''Pan_troglo'' ''Homo_sapie'' m = Some stats
         \<and> lookup_method (o_results st') ''Homo_sapie'' ''Pan_troglo'' m = Some stats"
    by auto
  from *(1) have keys: "''dS'' \<in> dom stats" "''rho'' \<in> dom stats"
    by (auto simp: example_lwl85m_tokens strip_chars_def strip_with_def Let_def)
  with *(3) have "stats ''dS'' = Some (PyFloat NaN)" "stats ''rho'' = Some (PyFloat NaN)"
    by blast+
  with * show ?thesis by blast
qed

text \<open>
  C2 as stated fails: on the \<^verbatim>\<open>LWL85m\<close> line of the example the value stored for
  \<^verbatim>\<open>dS\<close> is the not-a-number float, not the marker \<^verbatim>\<open>None\<close>.
\<close>

theorem others_nan_counterexample:
  "\<exists>r stats. parse_others [example_header, example_lwl85m]
                (pair_table ''Pan_troglo'' ''Homo_sapie'') [] = Inr r
      \<and> lookup_method r ''Pan_troglo'' ''Homo_sapie'' ''LWL85m'' = Some stats
      \<and> stats ''dS'' = Some (PyFloat NaN) \<and> stats ''dS'' \<noteq> Some PyNone"
proof -
  let ?T = "pair_table ''Pan_troglo'' ''Homo_sapie''"
  let ?S = "[''dS'' \<mapsto> PyFloat NaN, ''dN'' \<mapsto> PyFloat NaN, ''omega'' \<mapsto> PyFloat NaN,
             ''S'' \<mapsto> PyFloat NaN, ''N'' \<mapsto> PyFloat NaN, ''rho'' \<mapsto> PyFloat NaN]"
  from store_both_lookup [OF pair_table_PH(1) pair_table_PH(3) pair_table_PH(2) pair_table_PH(4)]
  obtain r where r: "store_both ?T ''Pan_troglo'' ''Homo_sapie'' ''LWL85m'' ?S = Inr r"
    "lookup_method r ''Pan_troglo'' ''Homo_sapie'' ''LWL85m'' = Some ?S"
    by metis
  have 1: "parse_others [example_header, example_lwl85m] ?T [] = Inr r"
    by (simp only: parse_others_header_stats [OF example_header_res example_not_header(2) example_dS(2)]
                   stats_line_lwl85m r)
  have 2: "?S ''dS'' = Some (PyFloat NaN)" by simp
  from 1 r(2) 2 show ?thesis by (intro exI [of _ r] exI [of _ ?S]) simp
qed

section \<open>The matrix section: lemmas\<close>

lemma find_rev_upt:
  "(find P (rev [1 ..< Suc m]) \<noteq> None) = (\<exists>n. 1 \<le> n \<and> n \<le> m \<and> P n)"
  by (auto simp: find_None_iff)

lemma five_spaces_iff:
  "(5 \<le> length (takeWhile is_space (take 5 xs))) =
     (5 \<le> length xs \<and> (\<forall>c\<in>set (take 5 xs). is_space c))"
proof
  assume a: "5 \<le> length (takeWhile is_space (take 5 xs))"
  have "length (takeWhile is_space (take 5 xs)) \<le> length (take 5 xs)"
    by (rule length_takeWhile_le)
  with a have len: "length (takeWhile is_space (take 5 xs)) = length (take 5 xs)" "5 \<le> length xs"
    by auto
  then have "takeWhile is_space (take 5 xs) = take 5 xs"
    by (metis takeWhile_eq_take take_all order_refl)
  then show "5 \<le> length xs \<and> (\<forall>c\<in>set (take 5 xs). is_space c)"
    using len by (metis set_takeWhileD)
next
  assume "5 \<le> length xs \<and> (\<forall>c\<in>set (take 5 xs). is_space c)"
  then show "5 \<le> length (takeWhile is_space (take 5 xs))"
    by (simp add: takeWhile_eq_all_conv [THEN iffD2])
qed

lemma matrix_row_res_Some_iff:
  "(matrix_row_res line \<noteq> None) =
     (\<exists>n. 1 \<le> n \<and> n \<le> length (takeWhile (\<lambda>c. c \<noteq> newline) line)
        \<and> 5 \<le> length (drop n line) \<and> (\<forall>c\<in>set (take 5 (drop n line)). is_space c))"
  unfolding matrix_row_res_def Let_def map_option_is_None find_rev_upt five_spaces_iff
  by (rule refl)

lemma matrix_row_res_iff: "(matrix_row_res line \<noteq> None) = row_labeled line"
proof
  assume "matrix_row_res line \<noteq> None"
  then obtain n where n: "1 \<le> n" "n \<le> length (takeWhile (\<lambda>c. c \<noteq> newline) line)"
      "5 \<le> length (drop n line)" "\<forall>c\<in>set (take 5 (drop n line)). is_space c"
    unfolding matrix_row_res_Some_iff by blast
  let ?p = "take n line" and ?s = "take 5 (drop n line)" and ?t = "drop 5 (drop n line)"
  have "line = ?p @ ?s @ ?t"
    by (simp only: append_take_drop_id)
  moreover have "?p \<noteq> []" using n by (auto simp: length_takeWhile_le dest: le_trans)
  moreover have "newline \<notin> set ?p"
  proof -
    have "?p = take n (takeWhile (\<lambda>c. c \<noteq> newline) line)"
      using n(2) by (metis takeWhile_dropWhile_id take_append diff_is_0_eq take_0 append_Nil2)
    then show ?thesis by (metis in_set_takeD set_takeWhileD)
  qed
  moreover have "length ?s = 5" using n by simp
  ultimately show "row_labeled line"
    unfolding row_labeled_def using n(4)
    by (intro exI [of _ ?p] exI [of _ ?s] exI [of _ ?t]) simp
next
  assume "row_labeled line"
  then obtain p s t where *: "line = p @ s @ t" "p \<noteq> []" "newline \<notin> set p"
      "5 \<le> length s" "\<forall>c\<in>set s. is_space c"
    by (auto simp: row_labeled_def)
  let ?n = "length p"
  have "takeWhile (\<lambda>c. c \<noteq> newline) (p @ (s @ t)) = p @ takeWhile (\<lambda>c. c \<noteq> newline) (s @ t)"
    by (rule takeWhile_append2) (use * in auto)
  then have "takeWhile (\<lambda>c. c \<noteq> newline) line = p @ takeWhile (\<lambda>c. c \<noteq> newline) (s @ t)"
    using *(1) by simp
  then have "?n \<le> length (takeWhile (\<lambda>c. c \<noteq> newline) line)" by simp
  moreover have "1 \<le> ?n" using * by (cases p) auto
  moreover have "5 \<le> length (drop ?n line)" using * by simp
  moreover have "\<forall>c\<in>set (take 5 (drop ?n line)). is_space c"
    using * by (auto dest: in_set_takeD)
  ultimately show "matrix_row_res line \<noteq> None"
    unfolding matrix_row_res_Some_iff by blast
qed

lemma ng86_loop_sequences:
  "ng86_loop lines results sequences = Inr (r, s) \<Longrightarrow>
     s = sequences @ map (\<lambda>l. strip (the (matrix_row_res l)))
                       (filter (\<lambda>l. matrix_row_res l \<noteq> None) lines)"
proof (induction lines arbitrary: results sequences)
  case Nil
  then show ?case by simp
next
  case (Cons line lines)
  show ?case
  proof (cases "matrix_row_res line")
    case None
    with Cons.prems have "ng86_loop lines results sequences = Inr (r, s)"
      by (simp split: sum.splits)
    from Cons.IH [OF this] None show ?thesis by simp
  next
    case (Some g)
    with Cons.prems obtain results2
      where "ng86_loop lines results2 (sequences @ [strip g]) = Inr (r, s)"
      by (auto simp: Let_def split: sum.splits)
    from Cons.IH [OF this] Some show ?thesis by simp
  qed
qed

lemma yn00_loop_sequences:
  "yn00_loop lines st = Inr st' \<Longrightarrow> st_sequences st' = st_sequences st"
  by (induction lines arbitrary: st) (auto split: sum.splits)


lemma ng86_groups_Cons:
  assumes "ng86_groups (x # y # z # fs) j s seqs results = Inr r"
  shows "\<exists>row orow. results s = Some row \<and> j < length seqs
           \<and> (results(s \<mapsto> row(seqs ! j \<mapsto> ng86_pair (x, y, z)))) (seqs ! j) = Some orow
           \<and> ng86_groups fs (Suc j) s seqs
                (results(s \<mapsto> row(seqs ! j \<mapsto> ng86_pair (x, y, z)),
                         seqs ! j \<mapsto> orow(s \<mapsto> ng86_pair (x, y, z)))) = Inr r"
  using assms
  by (auto simp: Let_def py_index_def ng86_pair_def ng86_stats_def
           split: option.splits sum.splits if_splits)

lemma step_lookup_pair:
  assumes "results s = Some row"
      and "(results(s \<mapsto> row(b \<mapsto> P))) b = Some orow"
  shows "lookup_pair (results(s \<mapsto> row(b \<mapsto> P), b \<mapsto> orow(s \<mapsto> P))) x y =
           (if (x = s \<and> y = b) \<or> (x = b \<and> y = s) then Some P else lookup_pair results x y)"
  using assms by (auto simp: lookup_pair_def split: if_splits)

lemma step_top:
  assumes "results s = Some row"
      and "(results(s \<mapsto> row(b \<mapsto> P))) b = Some orow"
  shows "((results(s \<mapsto> row(b \<mapsto> P), b \<mapsto> orow(s \<mapsto> P))) a = None) = (results a = None)"
    and "a \<noteq> s \<Longrightarrow> a \<noteq> b \<Longrightarrow> (results(s \<mapsto> row(b \<mapsto> P), b \<mapsto> orow(s \<mapsto> P))) a = results a"
  using assms by (auto split: if_splits)

lemma ng86_groups_top:
  "ng86_groups lf j s seqs results = Inr r \<Longrightarrow>
     ((r a = None) = (results a = None)) \<and> (a \<noteq> s \<longrightarrow> a \<notin> set seqs \<longrightarrow> r a = results a)"
proof (induction lf arbitrary: j results rule: groups_of_three.induct)
  case (1 x y z fs)
  from ng86_groups_Cons [OF "1.prems"] obtain row orow
    where st: "results s = Some row" "j < length seqs"
      "(results(s \<mapsto> row(seqs ! j \<mapsto> ng86_pair (x, y, z)))) (seqs ! j) = Some orow"
      and rest: "ng86_groups fs (Suc j) s seqs
                (results(s \<mapsto> row(seqs ! j \<mapsto> ng86_pair (x, y, z)),
                         seqs ! j \<mapsto> orow(s \<mapsto> ng86_pair (x, y, z)))) = Inr r"
    by blast
  from "1.IH" [OF rest] step_top [OF st(1,3), of a] st(2) show ?case
    by (metis nth_mem)
qed simp_all

lemma ng86_groups_frame:
  "ng86_groups lf j s seqs results = Inr r \<Longrightarrow>
   \<not> (x = s \<and> y \<in> set (drop j seqs)) \<Longrightarrow> \<not> (y = s \<and> x \<in> set (drop j seqs)) \<Longrightarrow>
     lookup_pair r x y = lookup_pair results x y"
proof (induction lf arbitrary: j results rule: groups_of_three.induct)
  case (1 a b c fs)
  from ng86_groups_Cons [OF "1.prems"(1)] obtain row orow
    where st: "results s = Some row" "j < length seqs"
      "(results(s \<mapsto> row(seqs ! j \<mapsto> ng86_pair (a, b, c)))) (seqs ! j) = Some orow"
      and rest: "ng86_groups fs (Suc j) s seqs
                (results(s \<mapsto> row(seqs ! j \<mapsto> ng86_pair (a, b, c)),
                         seqs ! j \<mapsto> orow(s \<mapsto> ng86_pair (a, b, c)))) = Inr r"
    by blast
  have sub: "set (drop (Suc j) seqs) \<subseteq> set (drop j seqs)"
    by (metis drop_Suc set_drop_subset tl_drop drop_drop plus_1_eq_Suc)
  have mem: "seqs ! j \<in> set (drop j seqs)"
    using st(2) by (metis Cons_nth_drop_Suc list.set_intros(1))
  have "lookup_pair r x y =
        lookup_pair (results(s \<mapsto> row(seqs ! j \<mapsto> ng86_pair (a, b, c)),
                         seqs ! j \<mapsto> orow(s \<mapsto> ng86_pair (a, b, c)))) x y"
    using "1.prems"(2,3) sub by (intro "1.IH" [OF rest]) auto
  also have "\<dots> = lookup_pair results x y"
    using "1.prems"(2,3) mem by (auto simp: step_lookup_pair [OF st(1,3)])
  finally show ?case .
qed simp_all

lemma ng86_groups_keys:
  "ng86_groups lf j s seqs results = Inr r \<Longrightarrow> lookup_pair r x y \<noteq> None \<Longrightarrow>
     lookup_pair results x y \<noteq> None \<or> (x = s \<and> y \<in> set seqs) \<or> (y = s \<and> x \<in> set seqs)"
  using ng86_groups_frame [of lf j s seqs results r x y]
  by (metis in_set_dropD)

lemma ng86_groups_sym:
  "ng86_groups lf j s seqs results = Inr r \<Longrightarrow>
   lookup_pair results x y = lookup_pair results y x \<Longrightarrow>
     lookup_pair r x y = lookup_pair r y x"
proof (induction lf arbitrary: j results rule: groups_of_three.induct)
  case (1 a b c fs)
  from ng86_groups_Cons [OF "1.prems"(1)] obtain row orow
    where st: "results s = Some row" "j < length seqs"
      "(results(s \<mapsto> row(seqs ! j \<mapsto> ng86_pair (a, b, c)))) (seqs ! j) = Some orow"
      and rest: "ng86_groups fs (Suc j) s seqs
                (results(s \<mapsto> row(seqs ! j \<mapsto> ng86_pair (a, b, c)),
                         seqs ! j \<mapsto> orow(s \<mapsto> ng86_pair (a, b, c)))) = Inr r"
    by blast
  let ?U = "results(s \<mapsto> row(seqs ! j \<mapsto> ng86_pair (a, b, c)),
                         seqs ! j \<mapsto> orow(s \<mapsto> ng86_pair (a, b, c)))"
  note U = step_lookup_pair [OF st(1,3)]
  have "lookup_pair ?U x y = lookup_pair ?U y x"
    unfolding U using "1.prems"(2) by auto
  then show ?case by (rule "1.IH" [OF rest])
qed simp_all

lemma ng86_groups_shape:
  "ng86_groups lf j s seqs results = Inr r \<Longrightarrow> lookup_pair r x y = Some p \<Longrightarrow>
     lookup_pair results x y = Some p \<or> (\<exists>g. p = ng86_pair g)"
proof (induction lf arbitrary: j results rule: groups_of_three.induct)
  case (1 a b c fs)
  from ng86_groups_Cons [OF "1.prems"(1)] obtain row orow
    where st: "results s = Some row" "j < length seqs"
      "(results(s \<mapsto> row(seqs ! j \<mapsto> ng86_pair (a, b, c)))) (seqs ! j) = Some orow"
      and rest: "ng86_groups fs (Suc j) s seqs
                (results(s \<mapsto> row(seqs ! j \<mapsto> ng86_pair (a, b, c)),
                         seqs ! j \<mapsto> orow(s \<mapsto> ng86_pair (a, b, c)))) = Inr r"
    by blast
  let ?U = "results(s \<mapsto> row(seqs ! j \<mapsto> ng86_pair (a, b, c)),
                         seqs ! j \<mapsto> orow(s \<mapsto> ng86_pair (a, b, c)))"
  note U = step_lookup_pair [OF st(1,3)]
  from "1.IH" [OF rest "1.prems"(2)]
  have "lookup_pair ?U x y = Some p \<or> (\<exists>g. p = ng86_pair g)" .
  then show ?case unfolding U by (auto split: if_splits)
qed simp_all

lemma ng86_groups_effect:
  "ng86_groups lf j s seqs results = Inr r \<Longrightarrow> distinct seqs \<Longrightarrow>
   i < length (groups_of_three lf) \<Longrightarrow>
     j + i < length seqs
   \<and> lookup_pair r s (seqs ! (j + i)) = Some (ng86_pair (groups_of_three lf ! i))
   \<and> lookup_pair r (seqs ! (j + i)) s = Some (ng86_pair (groups_of_three lf ! i))"
proof (induction lf arbitrary: j results i rule: groups_of_three.induct)
  case (1 a b c fs)
  from ng86_groups_Cons [OF "1.prems"(1)] obtain row orow
    where st: "results s = Some row" "j < length seqs"
      "(results(s \<mapsto> row(seqs ! j \<mapsto> ng86_pair (a, b, c)))) (seqs ! j) = Some orow"
      and rest: "ng86_groups fs (Suc j) s seqs
                (results(s \<mapsto> row(seqs ! j \<mapsto> ng86_pair (a, b, c)),
                         seqs ! j \<mapsto> orow(s \<mapsto> ng86_pair (a, b, c)))) = Inr r"
    by blast
  let ?U = "results(s \<mapsto> row(seqs ! j \<mapsto> ng86_pair (a, b, c)),
                         seqs ! j \<mapsto> orow(s \<mapsto> ng86_pair (a, b, c)))"
  show ?case
  proof (cases i)
    case 0
    have notin: "seqs ! j \<notin> set (drop (Suc j) seqs)"
      using "1.prems"(2) st(2)
      by (metis Cons_nth_drop_Suc distinct.simps(2) distinct_drop)
    have "lookup_pair r s (seqs ! j) = lookup_pair ?U s (seqs ! j)"
      "lookup_pair r (seqs ! j) s = lookup_pair ?U (seqs ! j) s"
      using notin by (auto intro!: ng86_groups_frame [OF rest])
    then show ?thesis using 0 st(2) by (simp add: step_lookup_pair [OF st(1,3)])
  next
    case (Suc i')
    with "1.prems"(3) have "i' < length (groups_of_three fs)" by simp
    from "1.IH" [OF rest "1.prems"(2) this] Suc show ?thesis by simp
  qed
qed simp_all


lemma lookup_pair_reset:
  "lookup_pair (results(s \<mapsto> Map.empty)) a b = (if a = s then None else lookup_pair results a b)"
  by (simp add: lookup_pair_def)

lemma ng86_row_inv:
  assumes g: "ng86_groups lf 0 s (S @ [s]) (results(s \<mapsto> Map.empty)) = Inr r2"
      and inv: "ng86_inv results S"
  shows "ng86_inv r2 (S @ [s])"
  unfolding ng86_inv_def
proof (intro ballI conjI allI impI)
  fix a assume a: "a \<in> set (S @ [s])"
  have "(results(s \<mapsto> Map.empty)) a \<noteq> None"
    using a inv by (auto simp: ng86_inv_def)
  then show "r2 a \<noteq> None" using ng86_groups_top [OF g, of a] by simp
next
  fix a b assume a: "a \<in> set (S @ [s])" and l: "lookup_pair r2 a b \<noteq> None"
  from ng86_groups_keys [OF g l]
  show "b \<in> set (S @ [s])"
    using a inv by (auto simp: lookup_pair_reset ng86_inv_def split: if_splits)
next
  fix a b p assume a: "a \<in> set (S @ [s])" and l: "lookup_pair r2 a b = Some p"
  from ng86_groups_shape [OF g l]
  show "\<exists>g. p = ng86_pair g"
    using a inv by (auto simp: lookup_pair_reset ng86_inv_def split: if_splits)
qed

lemma ng86_loop_Cons_row:
  assumes "ng86_loop (line # lines) results S = Inr (r, S')" and "matrix_row_res line = Some g"
  shows "\<exists>lf r2. float_all (findall_float line) = Inr lf
           \<and> ng86_groups lf 0 (strip g) (S @ [strip g]) (results(strip g \<mapsto> Map.empty)) = Inr r2
           \<and> ng86_loop lines r2 (S @ [strip g]) = Inr (r, S')"
  using assms by (auto simp: Let_def split: sum.splits)

lemma ng86_loop_Cons_skip:
  assumes "ng86_loop (line # lines) results S = Inr (r, S')" and "matrix_row_res line = None"
  shows "ng86_loop lines results S = Inr (r, S')"
  using assms by (auto split: sum.splits)

lemma ng86_loop_inv:
  "ng86_loop lines results S = Inr (r, S') \<Longrightarrow> ng86_inv results S \<Longrightarrow> ng86_inv r S'"
proof (induction lines arbitrary: results S)
  case Nil
  then show ?case by simp
next
  case (Cons line lines)
  show ?case
  proof (cases "matrix_row_res line")
    case None
    from Cons.IH [OF ng86_loop_Cons_skip [OF Cons.prems(1) None] Cons.prems(2)]
    show ?thesis .
  next
    case (Some g)
    from ng86_loop_Cons_row [OF Cons.prems(1) Some] obtain lf r2
      where g: "ng86_groups lf 0 (strip g) (S @ [strip g]) (results(strip g \<mapsto> Map.empty)) = Inr r2"
        and rest: "ng86_loop lines r2 (S @ [strip g]) = Inr (r, S')"
      by blast
    from Cons.IH [OF rest ng86_row_inv [OF g Cons.prems(2)]] show ?thesis .
  qed
qed

lemma ng86_loop_frame:
  "ng86_loop lines results S = Inr (r, S') \<Longrightarrow>
     (a \<notin> set S' \<longrightarrow> r a = results a) \<and> (results a \<noteq> None \<longrightarrow> r a \<noteq> None)"
proof (induction lines arbitrary: results S)
  case Nil
  then show ?case by simp
next
  case (Cons line lines)
  show ?case
  proof (cases "matrix_row_res line")
    case None
    from Cons.IH [OF ng86_loop_Cons_skip [OF Cons.prems(1) None]]
    show ?thesis .
  next
    case (Some g)
    from ng86_loop_Cons_row [OF Cons.prems(1) Some] obtain lf r2
      where g: "ng86_groups lf 0 (strip g) (S @ [strip g]) (results(strip g \<mapsto> Map.empty)) = Inr r2"
        and rest: "ng86_loop lines r2 (S @ [strip g]) = Inr (r, S')"
      by blast
    have sub: "set (S @ [strip g]) \<subseteq> set S'"
      using ng86_loop_sequences [OF rest] by auto
    from ng86_groups_top [OF g, of a]
    have "(a \<notin> set S' \<longrightarrow> r2 a = results a) \<and> (results a \<noteq> None \<longrightarrow> r2 a \<noteq> None)"
      using sub by (auto split: if_splits)
    with Cons.IH [OF rest] show ?thesis by auto
  qed
qed

lemma ng86_loop_persist:
  "ng86_loop lines results S = Inr (r, S') \<Longrightarrow> distinct S' \<Longrightarrow>
   x \<in> set S \<Longrightarrow> y \<in> set S \<Longrightarrow> lookup_pair r x y = lookup_pair results x y"
proof (induction lines arbitrary: results S)
  case Nil
  then show ?case by simp
next
  case (Cons line lines)
  show ?case
  proof (cases "matrix_row_res line")
    case None
    from Cons.IH [OF ng86_loop_Cons_skip [OF Cons.prems(1) None] Cons.prems(2-4)]
    show ?thesis .
  next
    case (Some g)
    from ng86_loop_Cons_row [OF Cons.prems(1) Some] obtain lf r2
      where g: "ng86_groups lf 0 (strip g) (S @ [strip g]) (results(strip g \<mapsto> Map.empty)) = Inr r2"
        and rest: "ng86_loop lines r2 (S @ [strip g]) = Inr (r, S')"
      by blast
    from ng86_loop_sequences [OF rest] Cons.prems(2)
    have new: "strip g \<notin> set S" by auto
    with Cons.prems(3,4) have ne: "x \<noteq> strip g" "y \<noteq> strip g" by auto
    have "lookup_pair r x y = lookup_pair r2 x y"
      using Cons.prems(3,4) by (intro Cons.IH [OF rest Cons.prems(2)]) auto
    also have "\<dots> = lookup_pair (results(strip g \<mapsto> Map.empty)) x y"
      using ne by (intro ng86_groups_frame [OF g]) auto
    also have "\<dots> = lookup_pair results x y"
      using ne by (simp add: lookup_pair_reset)
    finally show ?thesis .
  qed
qed

lemma ng86_loop_sym:
  "ng86_loop lines results S = Inr (r, S') \<Longrightarrow> distinct S' \<Longrightarrow> ng86_inv results S \<Longrightarrow>
   \<forall>a\<in>set S. \<forall>b\<in>set S. lookup_pair results a b = lookup_pair results b a \<Longrightarrow>
     \<forall>a\<in>set S'. \<forall>b\<in>set S'. lookup_pair r a b = lookup_pair r b a"
proof (induction lines arbitrary: results S)
  case Nil
  then show ?case by simp
next
  case (Cons line lines)
  show ?case
  proof (cases "matrix_row_res line")
    case None
    from Cons.IH [OF ng86_loop_Cons_skip [OF Cons.prems(1) None] Cons.prems(2-4)]
    show ?thesis .
  next
    case (Some g)
    let ?s = "strip g"
    from ng86_loop_Cons_row [OF Cons.prems(1) Some] obtain lf r2
      where g: "ng86_groups lf 0 ?s (S @ [?s]) (results(?s \<mapsto> Map.empty)) = Inr r2"
        and rest: "ng86_loop lines r2 (S @ [?s]) = Inr (r, S')"
      by blast
    from ng86_loop_sequences [OF rest] Cons.prems(2)
    have new: "?s \<notin> set S" by auto
    have closed: "lookup_pair results a ?s = None" if "a \<in> set S" for a
      using that Cons.prems(3) new unfolding ng86_inv_def by blast
    have sym1: "lookup_pair (results(?s \<mapsto> Map.empty)) a b
                = lookup_pair (results(?s \<mapsto> Map.empty)) b a"
      if "a \<in> set (S @ [?s])" "b \<in> set (S @ [?s])" for a b
      using that Cons.prems(4) closed by (auto simp: lookup_pair_reset)
    have "\<forall>a\<in>set (S @ [?s]). \<forall>b\<in>set (S @ [?s]). lookup_pair r2 a b = lookup_pair r2 b a"
      using sym1 ng86_groups_sym [OF g] by blast
    from Cons.IH [OF rest Cons.prems(2) ng86_row_inv [OF g Cons.prems(3)] this]
    show ?thesis .
  qed
qed

lemma ng86_loop_groups:
  "ng86_loop lines results S = Inr (r, S') \<Longrightarrow> distinct S' \<Longrightarrow>
   k < length (filter (\<lambda>l. matrix_row_res l \<noteq> None) lines) \<Longrightarrow>
   float_all (findall_float (filter (\<lambda>l. matrix_row_res l \<noteq> None) lines ! k)) = Inr lf \<Longrightarrow>
   i < length (groups_of_three lf) \<Longrightarrow>
     i < length S'
   \<and> lookup_pair r (S' ! (length S + k)) (S' ! i) = Some (ng86_pair (groups_of_three lf ! i))
   \<and> lookup_pair r (S' ! i) (S' ! (length S + k)) = Some (ng86_pair (groups_of_three lf ! i))"
proof (induction lines arbitrary: results S k)
  case Nil
  then show ?case by simp
next
  case (Cons line lines)
  show ?case
  proof (cases "matrix_row_res line")
    case None
    from Cons.prems(3,4) None
    have "k < length (filter (\<lambda>l. matrix_row_res l \<noteq> None) lines)"
      "float_all (findall_float (filter (\<lambda>l. matrix_row_res l \<noteq> None) lines ! k)) = Inr lf"
      by simp_all
    from Cons.IH [OF ng86_loop_Cons_skip [OF Cons.prems(1) None] Cons.prems(2) this Cons.prems(5)]
    show ?thesis .
  next
    case (Some g)
    let ?s = "strip g"
    let ?S1 = "S @ [?s]"
    from ng86_loop_Cons_row [OF Cons.prems(1) Some] obtain lf1 r2
      where fl: "float_all (findall_float line) = Inr lf1"
        and g: "ng86_groups lf1 0 ?s ?S1 (results(?s \<mapsto> Map.empty)) = Inr r2"
        and rest: "ng86_loop lines r2 ?S1 = Inr (r, S')"
      by blast
    from ng86_loop_sequences [OF rest] obtain tl where S': "S' = ?S1 @ tl" by blast
    show ?thesis
    proof (cases k)
      case 0
      with Cons.prems(4) Some fl have lf: "lf1 = lf" by simp
      have d1: "distinct ?S1" using Cons.prems(2) S' by simp
      from ng86_groups_effect [OF g d1, of i] Cons.prems(5) lf
      have eff: "i < length ?S1"
        "lookup_pair r2 ?s (?S1 ! i) = Some (ng86_pair (groups_of_three lf ! i))"
        "lookup_pair r2 (?S1 ! i) ?s = Some (ng86_pair (groups_of_three lf ! i))"
        by simp_all
      have mem: "?s \<in> set ?S1" "?S1 ! i \<in> set ?S1" using eff(1) by (simp, metis nth_mem)
      have p: "lookup_pair r ?s (?S1 ! i) = lookup_pair r2 ?s (?S1 ! i)"
        "lookup_pair r (?S1 ! i) ?s = lookup_pair r2 (?S1 ! i) ?s"
        using ng86_loop_persist [OF rest Cons.prems(2)] mem by blast+
      have idx: "S' ! i = ?S1 ! i" "S' ! (length S + k) = ?s"
        using eff(1) 0 S' by (simp_all add: nth_append)
      show ?thesis using eff p idx S' by simp
    next
      case (Suc k')
      with Cons.prems(3,4) Some
      have "k' < length (filter (\<lambda>l. matrix_row_res l \<noteq> None) lines)"
        "float_all (findall_float (filter (\<lambda>l. matrix_row_res l \<noteq> None) lines ! k')) = Inr lf"
        by simp_all
      from Cons.IH [OF rest Cons.prems(2) this Cons.prems(5)] Suc show ?thesis by simp
    qed
  qed
qed


lemma set_method_key_shape:
  assumes "set_method results a b m stats = Inr r"
  shows "key_shape r = key_shape results"
proof -
  from set_method_Inr [OF assms] obtain row pair
    where *: "results a = Some row" "row b = Some pair"
      "r = results(a \<mapsto> row(b \<mapsto> pair(m \<mapsto> stats)))"
    by blast
  from *(2) have "dom (row(b \<mapsto> pair(m \<mapsto> stats))) = dom row" by auto
  with *(1) show ?thesis unfolding *(3) by (auto simp: key_shape_def fun_eq_iff)
qed

lemma set_method_twice_key_shape:
  "set_method results a b m stats = Inr r1 \<Longrightarrow> set_method r1 c d m' stats' = Inr r \<Longrightarrow>
     key_shape r = key_shape results"
  by (metis set_method_key_shape)

lemma store_both_key_shape:
  "store_both results a b m stats = Inr r \<Longrightarrow> key_shape r = key_shape results"
  by (auto simp: store_both_def split: sum.splits dest: set_method_twice_key_shape)

lemma yn00_line_key_shape:
  "yn00_line sequences results line = Inr r \<Longrightarrow> key_shape r = key_shape results"
  by (auto simp: yn00_line_def Let_def split: sum.splits option.splits prod.splits
           dest: set_method_twice_key_shape)

lemma yn00_loop_key_shape:
  "yn00_loop lines st = Inr st' \<Longrightarrow> key_shape (st_results st') = key_shape (st_results st)"
proof (induction lines arbitrary: st)
  case Nil
  then show ?case by simp
next
  case (Cons line lines)
  from Cons.prems obtain r1
    where 1: "yn00_line (st_sequences st) (st_results st) line = Inr r1"
      and 2: "yn00_loop lines (st\<lparr>st_results := r1\<rparr>) = Inr st'"
    by (auto split: sum.splits)
  from Cons.IH [OF 2] yn00_line_key_shape [OF 1] show ?case by simp
qed

lemma parse_yn00_key_shape:
  "parse_yn00 lines results sequences = Inr r \<Longrightarrow> key_shape r = key_shape results"
proof -
  assume "parse_yn00 lines results sequences = Inr r"
  then obtain st' where "yn00_loop lines \<lparr>st_results = results, st_sequences = sequences\<rparr> = Inr st'"
    and "r = st_results st'"
    by (cases "yn00_loop lines \<lparr>st_results = results, st_sequences = sequences\<rparr>")
       (auto simp: parse_yn00_def)
  with yn00_loop_key_shape show ?thesis by fastforce
qed

lemma stats_line_key_shape:
  "stats_line results n1 n2 line = Inr r \<Longrightarrow> key_shape r = key_shape results"
  by (auto simp: stats_line_def Let_def split: sum.splits if_splits dest: store_both_key_shape)

lemma others_line_key_shape:
  "others_line st line = Inr st' \<Longrightarrow> key_shape (o_results st') = key_shape (o_results st)"
  by (auto simp: others_line_def split: option.splits sum.splits if_splits prod.splits
           dest: stats_line_key_shape)

lemma others_loop_key_shape:
  "others_loop lines st = Inr st' \<Longrightarrow> key_shape (o_results st') = key_shape (o_results st)"
proof (induction lines arbitrary: st)
  case Nil
  then show ?case by simp
next
  case (Cons line lines)
  from Cons.prems obtain st1
    where 1: "others_line st line = Inr st1" and 2: "others_loop lines st1 = Inr st'"
    by (auto split: sum.splits)
  from Cons.IH [OF 2] others_line_key_shape [OF 1] show ?case by simp
qed

lemma parse_others_key_shape:
  "parse_others lines results sequences = Inr r \<Longrightarrow> key_shape r = key_shape results"
proof -
  assume "parse_others lines results sequences = Inr r"
  then obtain st' where
    "others_loop lines \<lparr>seq_name1 = None, seq_name2 = None, o_results = results\<rparr> = Inr st'"
    and "r = o_results st'"
    by (cases "others_loop lines \<lparr>seq_name1 = None, seq_name2 = None, o_results = results\<rparr>")
       (auto simp: parse_others_def)
  with others_loop_key_shape show ?thesis by fastforce
qed

lemma key_shape_None: "key_shape r = key_shape results \<Longrightarrow> (r x = None) = (results x = None)"
proof -
  assume "key_shape r = key_shape results"
  then have "map_option dom (r x) = map_option dom (results x)"
    by (simp add: key_shape_def fun_eq_iff)
  then show ?thesis by (cases "r x"; cases "results x") simp_all
qed

lemma key_shape_dom: "key_shape r = key_shape results \<Longrightarrow> dom r = dom results"
  using key_shape_None [of r results] by (auto simp: dom_def)

lemma key_shape_rows:
  assumes "key_shape r = key_shape results" and "r a = Some row"
  shows "\<exists>row'. results a = Some row' \<and> dom row' = dom row"
proof -
  from assms(1) have "map_option dom (r a) = map_option dom (results a)"
    by (simp add: key_shape_def fun_eq_iff)
  with assms(2) show ?thesis by (cases "results a") simp_all
qed

lemma ng86_inv_rows:
  assumes "ng86_inv r S" and "a \<in> set S"
  shows "\<exists>row. r a = Some row \<and> dom row \<subseteq> set S"
proof -
  from assms obtain row where row: "r a = Some row" by (auto simp: ng86_inv_def)
  have "b \<in> set S" if "b \<in> dom row" for b
  proof -
    from that row have "lookup_pair r a b \<noteq> None" by (auto simp: lookup_pair_def)
    with assms show ?thesis unfolding ng86_inv_def by blast
  qed
  with row show ?thesis by blast
qed

lemma ng86_inv_Nil: "ng86_inv results []"
  by (simp add: ng86_inv_def)

section \<open>The matrix section: statements\<close>

lemma example_matrix_facts:
  "float_all (findall_float example_matrix_row1) = Inr []"
  "matrix_row_res example_matrix_row1 = Some ''Homo_sapie          ''"
  "strip ''Homo_sapie          '' = ''Homo_sapie''"
  "float_all (findall_float example_matrix_row2)
     = Inr [Finite False 0, Finite False 0, Finite False (207 / 10000)]"
  "matrix_row_res example_matrix_row2 = Some ''Pan_troglo      ''"
  "strip ''Pan_troglo      '' = ''Pan_troglo''"
  "float_all (findall_float []) = Inr []"
  "matrix_row_res [] = None"
  by (simp_all add: example_matrix_row1_def example_matrix_row2_def str_eval)

lemma label_line_facts:
  "float_all (findall_float label_A_line) = Inr []"
  "matrix_row_res label_A_line = Some ''A ''"
  "strip ''A '' = ''A''"
  "float_all (findall_float label_B_line)
     = Inr [Finite False (1 / 10), Finite False (2 / 10), Finite False (3 / 10)]"
  "matrix_row_res label_B_line = Some ''B ''"
  "strip ''B '' = ''B''"
  by (simp_all add: label_A_line_def label_B_line_def str_eval)

lemma seeded_run:
  "parse_ng86 [label_A_line] seeded_table = Inr (seeded_table(''A'' \<mapsto> Map.empty), [''A''])"
  by (simp add: parse_ng86_def label_line_facts Let_def)

lemma example_matrix_run:
  "parse_ng86 example_matrix Map.empty =
     Inr ([''Pan_troglo'' \<mapsto> [''Homo_sapie'' \<mapsto>
             ng86_pair (Finite False 0, Finite False 0, Finite False (207 / 10000))],
           ''Homo_sapie'' \<mapsto> [''Pan_troglo'' \<mapsto>
             ng86_pair (Finite False 0, Finite False 0, Finite False (207 / 10000))]],
          [''Homo_sapie'', ''Pan_troglo''])"
  by (simp add: parse_ng86_def example_matrix_def example_matrix_facts py_index_def Let_def
        ng86_pair_def ng86_stats_def)

lemma repeated_label_run:
  "parse_ng86 [label_A_line, label_B_line, label_A_line] Map.empty =
     Inr ([''B'' \<mapsto> [''A'' \<mapsto>
             ng86_pair (Finite False (1 / 10), Finite False (2 / 10), Finite False (3 / 10))],
           ''A'' \<mapsto> Map.empty],
          [''A'', ''B'', ''A''])"
  by (simp add: parse_ng86_def label_line_facts py_index_def Let_def
        ng86_pair_def ng86_stats_def)


lemma filter_row_labeled:
  "filter (\<lambda>l. matrix_row_res l \<noteq> None) lines = filter row_labeled lines"
  by (simp only: matrix_row_res_iff)

lemma example_matrix_rows:
  "filter (\<lambda>l. matrix_row_res l \<noteq> None) example_matrix = [example_matrix_row1, example_matrix_row2]"
  by (simp add: example_matrix_def example_matrix_facts)

text \<open>
  C9. When the matrix-section parser returns, its sequence list is the list of the
  labels of the row-labeled lines, in the order of the lines (a label that occurs on
  two lines occurs twice), so its length is the number of row-labeled lines. The loop
  of the indexed-table parser leaves the sequence list as it was.
\<close>

theorem ng86_sequences_are_row_labels:
  "(parse_ng86 lines results = Inr (r, sequences) \<longrightarrow>
      sequences = map (\<lambda>l. strip (the (matrix_row_res l))) (filter row_labeled lines)
    \<and> length sequences = length (filter row_labeled lines))
   \<and> (yn00_loop lines2 st = Inr st2 \<longrightarrow> st_sequences st2 = st_sequences st)"
proof (intro conjI impI)
  assume "parse_ng86 lines results = Inr (r, sequences)"
  then have "ng86_loop lines results [] = Inr (r, sequences)"
    by (simp add: parse_ng86_def)
  from ng86_loop_sequences [OF this]
  have "sequences = map (\<lambda>l. strip (the (matrix_row_res l))) (filter row_labeled lines)"
    by (simp only: filter_row_labeled append_Nil)
  then show "sequences = map (\<lambda>l. strip (the (matrix_row_res l))) (filter row_labeled lines)"
    and "length sequences = length (filter row_labeled lines)"
    by simp_all
next
  assume "yn00_loop lines2 st = Inr st2"
  then show "st_sequences st2 = st_sequences st" by (rule yn00_loop_sequences)
qed

theorem ng86_sequences_are_row_labels_witness:
  "\<exists>r st2. parse_ng86 example_matrix Map.empty = Inr (r, [''Homo_sapie'', ''Pan_troglo''])
      \<and> length (filter row_labeled example_matrix) = 2
      \<and> yn00_loop [example_row9]
           \<lparr>st_results = r, st_sequences = [''Homo_sapie'', ''Pan_troglo'']\<rparr> = Inr st2
      \<and> st_sequences st2 = [''Homo_sapie'', ''Pan_troglo'']"
proof -
  let ?g = "(Finite False 0, Finite False 0, Finite False (207 / 10000))"
  let ?r = "[''Pan_troglo'' \<mapsto> [''Homo_sapie'' \<mapsto> ng86_pair ?g],
             ''Homo_sapie'' \<mapsto> [''Pan_troglo'' \<mapsto> ng86_pair ?g]]"
  let ?st = "\<lparr>st_results = ?r, st_sequences = [''Homo_sapie'', ''Pan_troglo'']\<rparr>"
  have e: "?r ''Pan_troglo'' = Some [''Homo_sapie'' \<mapsto> ng86_pair ?g]"
    "[''Homo_sapie'' \<mapsto> ng86_pair ?g] ''Homo_sapie'' = Some (ng86_pair ?g)"
    "?r ''Homo_sapie'' = Some [''Pan_troglo'' \<mapsto> ng86_pair ?g]"
    "[''Pan_troglo'' \<mapsto> ng86_pair ?g] ''Pan_troglo'' = Some (ng86_pair ?g)"
    by simp_all
  have "\<exists>r2. parse_yn00 [example_row9] ?r [''Homo_sapie'', ''Pan_troglo''] = Inr r2"
    unfolding parse_yn00_row9 by (rule store_both_Inr [OF e])
  then obtain st2 where st2: "yn00_loop [example_row9] ?st = Inr st2"
    by (cases "yn00_loop [example_row9] ?st") (auto simp: parse_yn00_def)
  note th = ng86_sequences_are_row_labels [of example_matrix Map.empty ?r
         "[''Homo_sapie'', ''Pan_troglo'']" "[example_row9]" ?st st2]
  from th [THEN conjunct1] example_matrix_run
  have "[''Homo_sapie'', ''Pan_troglo'']
          = map (\<lambda>l. strip (the (matrix_row_res l))) (filter row_labeled example_matrix)
        \<and> length [''Homo_sapie'', ''Pan_troglo''] = length (filter row_labeled example_matrix)"
    by (rule mp)
  then have a: "length [''Homo_sapie'', ''Pan_troglo''] = length (filter row_labeled example_matrix)"
    by (rule conjunct2)
  have l2: "length [''Homo_sapie'', ''Pan_troglo''] = 2" by simp
  have len: "length (filter row_labeled example_matrix) = 2"
    by (rule trans [OF sym [OF a] l2])
  from th [THEN conjunct2] st2 have "st_sequences st2 = st_sequences ?st"
    by (rule mp)
  then have "st_sequences st2 = [''Homo_sapie'', ''Pan_troglo'']" by simp
  with example_matrix_run len st2 show ?thesis by blast
qed

text \<open>
  C3, as the code has it. The parser sets the top-level entry of every row label to a
  new empty dictionary, whether or not the table had one, and fills it from the rows of
  this pass: after the call the entry of each discovered name has only discovered names
  as keys. No top-level key is removed, and the entry of every name that is no row
  label of the input is as it was before the call.
\<close>

theorem ng86_resets_labeled_entries:
  assumes "parse_ng86 lines results = Inr (r, sequences)"
  shows "dom results \<subseteq> dom r
       \<and> (\<forall>a. a \<notin> set sequences \<longrightarrow> r a = results a)
       \<and> (\<forall>a\<in>set sequences. \<exists>row. r a = Some row \<and> dom row \<subseteq> set sequences)"
proof -
  from assms have loop: "ng86_loop lines results [] = Inr (r, sequences)"
    by (simp add: parse_ng86_def)
  have "dom results \<subseteq> dom r"
    using ng86_loop_frame [OF loop] by (auto simp: dom_def)
  moreover have "\<forall>a. a \<notin> set sequences \<longrightarrow> r a = results a"
    using ng86_loop_frame [OF loop] by blast
  moreover have "\<forall>a\<in>set sequences. \<exists>row. r a = Some row \<and> dom row \<subseteq> set sequences"
    using ng86_inv_rows [OF ng86_loop_inv [OF loop ng86_inv_Nil]] by blast
  ultimately show ?thesis by blast
qed

lemma seeded_table_lookups:
  "lookup_method seeded_table ''A'' ''B'' ''NG86''
     = Some (ng86_stats (Finite False 0, Finite False 0, Finite False (207 / 10000)))"
  "lookup_method (seeded_table(''A'' \<mapsto> Map.empty)) ''A'' ''B'' ''NG86'' = None"
  "(seeded_table(''A'' \<mapsto> Map.empty)) ''A'' = Some Map.empty"
  "(seeded_table(''A'' \<mapsto> Map.empty)) ''B'' = seeded_table ''B''"
  by (simp_all add: seeded_table_def lookup_method_def lookup_pair_def ng86_pair_def)

theorem ng86_resets_labeled_entries_witness:
  "\<exists>r. parse_ng86 [label_A_line] seeded_table = Inr (r, [''A''])
      \<and> dom seeded_table \<subseteq> dom r \<and> r ''B'' = seeded_table ''B''
      \<and> r ''A'' = Some Map.empty"
proof -
  from ng86_resets_labeled_entries [OF seeded_run]
  have "dom seeded_table \<subseteq> dom (seeded_table(''A'' \<mapsto> Map.empty))"
    "(seeded_table(''A'' \<mapsto> Map.empty)) ''B'' = seeded_table ''B''"
    by simp_all
  with seeded_run seeded_table_lookups(3) show ?thesis by blast
qed

text \<open>
  C3 as stated fails: with a table that holds the pair entry of A and B, parsing one
  row with the label A replaces the entry of A, and the statistics that were at
  \<^verbatim>\<open>results["A"]["B"]["NG86"]\<close> before the call are gone after it.
\<close>

theorem ng86_preseeded_counterexample:
  "lookup_method seeded_table ''A'' ''B'' ''NG86''
     = Some (ng86_stats (Finite False 0, Finite False 0, Finite False (207 / 10000)))
   \<and> (\<exists>r. parse_ng86 [label_A_line] seeded_table = Inr (r, [''A''])
         \<and> lookup_method r ''A'' ''B'' ''NG86'' = None)"
  using seeded_run seeded_table_lookups(1,2) by blast

lemma lookup_method_SomeD:
  "lookup_method r a b m = Some st \<Longrightarrow> \<exists>row p. r a = Some row \<and> row b = Some p"
  by (auto simp: lookup_method_def lookup_pair_def split: option.splits)

lemma dom_ng86_stats: "dom (ng86_stats g) = {''omega'', ''dN'', ''dS''}"
  by (cases g) (auto simp: ng86_stats_def)

lemma lookup_method_ng86_pair:
  "lookup_pair r a b = Some (ng86_pair g) \<Longrightarrow> lookup_method r a b ''NG86'' = Some (ng86_stats g)"
  by (simp add: lookup_method_def ng86_pair_def)

text \<open>
  C7. The indexed-table parser and the grouped-methods parser, when they return, leave
  the set of top-level keys, and under each the set of pair keys, as they were. When
  the three parsers are run in order from the empty table and return, the top-level
  keys of the final table are exactly the names of the sequence list that the
  matrix-section parser returned, and every pair key is one of these names.
\<close>

theorem names_come_from_matrix_section:
  "(parse_yn00 lines2 results2 seqs2 = Inr out2 \<longrightarrow>
      dom out2 = dom results2 \<and> key_shape out2 = key_shape results2)
   \<and> (parse_others lines3 results3 seqs3 = Inr out3 \<longrightarrow>
      dom out3 = dom results3 \<and> key_shape out3 = key_shape results3)
   \<and> (parse_ng86 l1 Map.empty = Inr (r1, sequences)
        \<and> parse_yn00 l2 r1 sequences = Inr r2
        \<and> parse_others l3 r2 sequences = Inr r3 \<longrightarrow>
      dom r3 = set sequences \<and> (\<forall>a row. r3 a = Some row \<longrightarrow> dom row \<subseteq> set sequences))"
proof (intro conjI impI)
  assume "parse_yn00 lines2 results2 seqs2 = Inr out2"
  note k2 = parse_yn00_key_shape [OF this]
  show "dom out2 = dom results2" by (rule key_shape_dom [OF k2])
  show "key_shape out2 = key_shape results2" by (rule k2)
next
  assume "parse_others lines3 results3 seqs3 = Inr out3"
  note k3 = parse_others_key_shape [OF this]
  show "dom out3 = dom results3" by (rule key_shape_dom [OF k3])
  show "key_shape out3 = key_shape results3" by (rule k3)
next
  assume a: "parse_ng86 l1 Map.empty = Inr (r1, sequences)
        \<and> parse_yn00 l2 r1 sequences = Inr r2
        \<and> parse_others l3 r2 sequences = Inr r3"
  then have loop: "ng86_loop l1 Map.empty [] = Inr (r1, sequences)"
    by (simp add: parse_ng86_def)
  from a have y: "parse_yn00 l2 r1 sequences = Inr r2"
    and o: "parse_others l3 r2 sequences = Inr r3"
    by simp_all
  have ks: "key_shape r3 = key_shape r1"
    by (simp only: parse_others_key_shape [OF o] parse_yn00_key_shape [OF y])
  note inv = ng86_loop_inv [OF loop ng86_inv_Nil]
  have dom1: "dom r1 = set sequences"
  proof (intro equalityI subsetI)
    fix x assume x: "x \<in> dom r1"
    show "x \<in> set sequences"
    proof (rule ccontr)
      assume "x \<notin> set sequences"
      with ng86_loop_frame [OF loop, of x] have "r1 x = None" by simp
      with x show False by (simp add: dom_def)
    qed
  next
    fix x assume "x \<in> set sequences"
    from ng86_inv_rows [OF inv this] show "x \<in> dom r1" by (auto simp: dom_def)
  qed
  with key_shape_dom [OF ks] show "dom r3 = set sequences" by simp
  show "\<forall>a row. r3 a = Some row \<longrightarrow> dom row \<subseteq> set sequences"
  proof (intro allI impI)
    fix a row assume r3: "r3 a = Some row"
    from key_shape_rows [OF ks r3] obtain row' where row': "r1 a = Some row'" "dom row' = dom row"
      by blast
    from row'(1) dom1 have "a \<in> set sequences" by auto
    from ng86_inv_rows [OF inv this] row' show "dom row \<subseteq> set sequences" by simp
  qed
qed


theorem names_come_from_matrix_section_witness:
  "\<exists>r1 r2 r3. parse_ng86 example_matrix Map.empty = Inr (r1, [''Homo_sapie'', ''Pan_troglo''])
      \<and> parse_yn00 [example_row9] r1 [''Homo_sapie'', ''Pan_troglo''] = Inr r2
      \<and> parse_others [example_header, example_lwl85] r2 [''Homo_sapie'', ''Pan_troglo''] = Inr r3
      \<and> dom r3 = {''Homo_sapie'', ''Pan_troglo''} \<and> dom r2 = dom r1"
proof -
  let ?g = "(Finite False 0, Finite False 0, Finite False (207 / 10000))"
  let ?r1 = "[''Pan_troglo'' \<mapsto> [''Homo_sapie'' \<mapsto> ng86_pair ?g],
              ''Homo_sapie'' \<mapsto> [''Pan_troglo'' \<mapsto> ng86_pair ?g]]"
  let ?seqs = "[''Homo_sapie'', ''Pan_troglo'']"
  have e: "?r1 ''Pan_troglo'' = Some [''Homo_sapie'' \<mapsto> ng86_pair ?g]"
    "[''Homo_sapie'' \<mapsto> ng86_pair ?g] ''Homo_sapie'' = Some (ng86_pair ?g)"
    "?r1 ''Homo_sapie'' = Some [''Pan_troglo'' \<mapsto> ng86_pair ?g]"
    "[''Pan_troglo'' \<mapsto> ng86_pair ?g] ''Pan_troglo'' = Some (ng86_pair ?g)"
    by simp_all
  from store_both_lookup [OF e] obtain r2
    where r2: "parse_yn00 [example_row9] ?r1 ?seqs = Inr r2"
      and l2: "\<exists>st. lookup_method r2 ''Pan_troglo'' ''Homo_sapie'' ''YN00'' = Some st"
              "\<exists>st. lookup_method r2 ''Homo_sapie'' ''Pan_troglo'' ''YN00'' = Some st"
    unfolding parse_yn00_row9 by metis
  from l2 obtain rowP pPH rowH pHP
    where e2: "r2 ''Pan_troglo'' = Some rowP" "rowP ''Homo_sapie'' = Some pPH"
      "r2 ''Homo_sapie'' = Some rowH" "rowH ''Pan_troglo'' = Some pHP"
    using lookup_method_SomeD by metis
  from store_both_Inr [OF e2] obtain r3
    where r3: "parse_others [example_header, example_lwl85] r2 ?seqs = Inr r3"
    unfolding parse_others_example_lwl85 by blast
  note th = names_come_from_matrix_section [of "[example_row9]" ?r1 ?seqs r2
      "[example_header, example_lwl85]" r2 ?seqs r3 example_matrix ?r1 ?seqs "[example_row9]" r2
      "[example_header, example_lwl85]" r3]
  from th [THEN conjunct1] r2 have "dom r2 = dom ?r1 \<and> key_shape r2 = key_shape ?r1"
    by (rule mp)
  then have d2: "dom r2 = dom ?r1" by (rule conjunct1)
  have all: "parse_ng86 example_matrix Map.empty = Inr (?r1, ?seqs)
        \<and> parse_yn00 [example_row9] ?r1 ?seqs = Inr r2
        \<and> parse_others [example_header, example_lwl85] r2 ?seqs = Inr r3"
    using example_matrix_run r2 r3 by (intro conjI)
  from th [THEN conjunct2, THEN conjunct2] all
  have "dom r3 = set ?seqs \<and> (\<forall>a row. r3 a = Some row \<longrightarrow> dom row \<subseteq> set ?seqs)"
    by (rule mp)
  then have "dom r3 = set ?seqs" by (rule conjunct1)
  then have d3: "dom r3 = {''Homo_sapie'', ''Pan_troglo''}" by simp
  from example_matrix_run r2 r3 d3 d2 show ?thesis by blast
qed


text \<open>
  C5, as the code has it. When the matrix-section parser returns a sequence list
  without a repeated name, then for every two discovered names \<open>a\<close>, \<open>b\<close> the
  entries \<^verbatim>\<open>results[a][b]\<close> and \<^verbatim>\<open>results[b][a]\<close> are equal (both missing or the same
  pair entry), so \<^verbatim>\<open>results[a][b]["NG86"]\<close> and \<^verbatim>\<open>results[b][a]["NG86"]\<close> are the same
  statistics; a pair entry holds the one key \<^verbatim>\<open>NG86\<close>, whose statistics have exactly
  the keys \<^verbatim>\<open>omega\<close>, \<^verbatim>\<open>dN\<close>, \<^verbatim>\<open>dS\<close>; and the \<open>i\<close>-th group of three numbers
  (counted from 0, in the order omega, dN, dS) of the \<open>k\<close>-th labeled row is stored
  between the name of that row and the \<open>i\<close>-th name of the sequence list, in both
  directions.
\<close>

theorem ng86_symmetric_for_distinct_labels:
  assumes "parse_ng86 lines results = Inr (r, sequences)" and "distinct sequences"
  shows "(\<forall>a\<in>set sequences. \<forall>b\<in>set sequences.
            lookup_pair r a b = lookup_pair r b a
          \<and> lookup_method r a b ''NG86'' = lookup_method r b a ''NG86''
          \<and> (\<forall>p. lookup_pair r a b = Some p \<longrightarrow> (\<exists>g. p = [''NG86'' \<mapsto> ng86_stats g]))
          \<and> (\<forall>st. lookup_method r a b ''NG86'' = Some st \<longrightarrow> dom st = {''omega'', ''dN'', ''dS''}))
       \<and> (\<forall>k lf i.
            k < length (filter row_labeled lines)
          \<and> float_all (findall_float (filter row_labeled lines ! k)) = Inr lf
          \<and> i < length (groups_of_three lf) \<longrightarrow>
            i < length sequences
          \<and> lookup_method r (sequences ! k) (sequences ! i) ''NG86''
              = Some (ng86_stats (groups_of_three lf ! i))
          \<and> lookup_method r (sequences ! i) (sequences ! k) ''NG86''
              = Some (ng86_stats (groups_of_three lf ! i)))"
proof (intro conjI ballI allI impI)
  from assms have loop: "ng86_loop lines results [] = Inr (r, sequences)"
    by (simp add: parse_ng86_def)
  note inv = ng86_loop_inv [OF loop ng86_inv_Nil]
  have sym: "\<forall>a\<in>set sequences. \<forall>b\<in>set sequences. lookup_pair r a b = lookup_pair r b a"
    by (rule ng86_loop_sym [OF loop assms(2) ng86_inv_Nil]) simp
  {
    fix a b assume ab: "a \<in> set sequences" "b \<in> set sequences"
    from sym ab show 1: "lookup_pair r a b = lookup_pair r b a" by blast
    then show "lookup_method r a b ''NG86'' = lookup_method r b a ''NG86''"
      by (simp add: lookup_method_def)
    {
      fix p assume "lookup_pair r a b = Some p"
      with inv ab(1) have "\<exists>g. p = ng86_pair g" unfolding ng86_inv_def by blast
      then show "\<exists>g. p = [''NG86'' \<mapsto> ng86_stats g]" by (simp add: ng86_pair_def)
    }
    note shape = this
    {
      fix st assume st: "lookup_method r a b ''NG86'' = Some st"
      then obtain p where p: "lookup_pair r a b = Some p" "p ''NG86'' = Some st"
        by (auto simp: lookup_method_def split: option.splits)
      from shape [OF p(1)] p(2) obtain g where "st = ng86_stats g" by auto
      then show "dom st = {''omega'', ''dN'', ''dS''}" by (simp add: dom_ng86_stats)
    }
  }
  {
    fix k lf i
    assume h: "k < length (filter row_labeled lines)
          \<and> float_all (findall_float (filter row_labeled lines ! k)) = Inr lf
          \<and> i < length (groups_of_three lf)"
    then have h': "k < length (filter (\<lambda>l. matrix_row_res l \<noteq> None) lines)"
      "float_all (findall_float (filter (\<lambda>l. matrix_row_res l \<noteq> None) lines ! k)) = Inr lf"
      "i < length (groups_of_three lf)"
      by (simp_all only: filter_row_labeled)
    from ng86_loop_groups [OF loop assms(2) h']
    have g: "i < length sequences"
      "lookup_pair r (sequences ! k) (sequences ! i) = Some (ng86_pair (groups_of_three lf ! i))"
      "lookup_pair r (sequences ! i) (sequences ! k) = Some (ng86_pair (groups_of_three lf ! i))"
      by simp_all
    from g(1) show "i < length sequences" .
    from g(2) show "lookup_method r (sequences ! k) (sequences ! i) ''NG86''
              = Some (ng86_stats (groups_of_three lf ! i))"
      by (rule lookup_method_ng86_pair)
    from g(3) show "lookup_method r (sequences ! i) (sequences ! k) ''NG86''
              = Some (ng86_stats (groups_of_three lf ! i))"
      by (rule lookup_method_ng86_pair)
  }
qed


lemma example_matrix_row_labeled:
  "filter row_labeled example_matrix = [example_matrix_row1, example_matrix_row2]"
  by (simp only: filter_row_labeled [symmetric] example_matrix_rows)

theorem ng86_symmetric_for_distinct_labels_witness:
  "\<exists>r. parse_ng86 example_matrix Map.empty = Inr (r, [''Homo_sapie'', ''Pan_troglo''])
      \<and> distinct [''Homo_sapie'', ''Pan_troglo'']
      \<and> lookup_method r ''Pan_troglo'' ''Homo_sapie'' ''NG86''
          = Some (ng86_stats (Finite False 0, Finite False 0, Finite False (207 / 10000)))
      \<and> lookup_method r ''Homo_sapie'' ''Pan_troglo'' ''NG86''
          = Some (ng86_stats (Finite False 0, Finite False 0, Finite False (207 / 10000)))"
proof -
  let ?lf = "[Finite False 0, Finite False 0, Finite False (207 / 10000)]"
  have d: "distinct [''Homo_sapie'', ''Pan_troglo'']" by simp
  have prem: "1 < length (filter row_labeled example_matrix)
      \<and> float_all (findall_float (filter row_labeled example_matrix ! 1)) = Inr ?lf
      \<and> 0 < length (groups_of_three ?lf)"
    by (simp add: example_matrix_row_labeled example_matrix_facts)
  note th = ng86_symmetric_for_distinct_labels [OF example_matrix_run d]
  from th [THEN conjunct2, rule_format, OF prem]
  have "lookup_method
          [''Pan_troglo'' \<mapsto> [''Homo_sapie'' \<mapsto>
             ng86_pair (Finite False 0, Finite False 0, Finite False (207 / 10000))],
           ''Homo_sapie'' \<mapsto> [''Pan_troglo'' \<mapsto>
             ng86_pair (Finite False 0, Finite False 0, Finite False (207 / 10000))]]
          ''Pan_troglo'' ''Homo_sapie'' ''NG86''
          = Some (ng86_stats (Finite False 0, Finite False 0, Finite False (207 / 10000)))"
    "lookup_method
          [''Pan_troglo'' \<mapsto> [''Homo_sapie'' \<mapsto>
             ng86_pair (Finite False 0, Finite False 0, Finite False (207 / 10000))],
           ''Homo_sapie'' \<mapsto> [''Pan_troglo'' \<mapsto>
             ng86_pair (Finite False 0, Finite False 0, Finite False (207 / 10000))]]
          ''Homo_sapie'' ''Pan_troglo'' ''NG86''
          = Some (ng86_stats (Finite False 0, Finite False 0, Finite False (207 / 10000)))"
    by simp_all
  with example_matrix_run d show ?thesis by blast
qed

lemma repeated_label_lookups:
  "lookup_method
     [''B'' \<mapsto> [''A'' \<mapsto>
        ng86_pair (Finite False (1 / 10), Finite False (2 / 10), Finite False (3 / 10))],
      ''A'' \<mapsto> Map.empty] ''A'' ''B'' ''NG86'' = None"
  "lookup_method
     [''B'' \<mapsto> [''A'' \<mapsto>
        ng86_pair (Finite False (1 / 10), Finite False (2 / 10), Finite False (3 / 10))],
      ''A'' \<mapsto> Map.empty] ''B'' ''A'' ''NG86''
     = Some (ng86_stats (Finite False (1 / 10), Finite False (2 / 10), Finite False (3 / 10)))"
  by (simp_all add: lookup_method_def lookup_pair_def ng86_pair_def)

text \<open>
  C5 as stated fails for a line sequence with a repeated row label: the second row
  with the label A empties the entry of A, so after the rows A, B (with one group), A
  the statistics are at \<^verbatim>\<open>results["B"]["A"]["NG86"]\<close> and missing at
  \<^verbatim>\<open>results["A"]["B"]["NG86"]\<close>.
\<close>

theorem ng86_repeated_label_counterexample:
  "\<exists>r. parse_ng86 [label_A_line, label_B_line, label_A_line] Map.empty
          = Inr (r, [''A'', ''B'', ''A''])
      \<and> lookup_method r ''A'' ''B'' ''NG86'' = None
      \<and> lookup_method r ''B'' ''A'' ''NG86''
          = Some (ng86_stats (Finite False (1 / 10), Finite False (2 / 10), Finite False (3 / 10)))"
  using repeated_label_run repeated_label_lookups by blast

end
